theory Spec2Isabelle
  imports Complex_Main
begin

section \<open>SCL mask postprocessing (satio\_pc/preprocessing/clouds.py)\<close>

text \<open>
  The module binarizes a Sentinel-2 scene classification (SCL) time series, erodes and
  dilates the binary mask one timestep at a time, and derives per-pixel statistics.
  Arrays are nested lists in the order of their axes: a plane is a list of rows, a
  (time, y, x) volume is a list of planes. Exceptions are values of \<open>error\<close>.
\<close>

subsection \<open>Values, errors and labelled arrays\<close>

datatype error = KeyError | TypeError | ValueError | IndexError | RuntimeError

text \<open>
  A floating-point cell. The quotient of two counts is kept exact (a rational); rounding
  to the nearest representable number is not part of the model. \<open>NaN\<close> is the result
  of \<open>0 / 0\<close>, \<open>PInf\<close> of a positive count divided by zero.
\<close>

datatype npfloat = NaN | PInf | Fin rat

type_synonym 'a plane = "'a list list"

type_synonym 'a volume = "'a list list list"

text \<open>A labelled array with dimensions (time, band, y, x).\<close>

record 'a DataArray =
  da_time :: "int list"
  da_band :: "string list"
  da_y :: "rat list"
  da_x :: "rat list"
  da_values :: "'a list list list list"
  da_attrs :: "(string \<times> string) list"

text \<open>
  The same after one band has been selected by label: dimensions (time, y, x), the band a
  scalar coordinate.
\<close>

record 'a DataArray3 =
  d3_time :: "int list"
  d3_band :: string
  d3_y :: "rat list"
  d3_x :: "rat list"
  d3_values :: "'a volume"
  d3_attrs :: "(string \<times> string) list"

text \<open>
  The values of a labelled array are rectangular and agree with the coordinates, and the
  labels of the band index are distinct.
\<close>

definition wf_stack :: "'a DataArray \<Rightarrow> bool" where
  "wf_stack a \<longleftrightarrow>
     length (da_values a) = length (da_time a) \<and> distinct (da_band a) \<and>
     list_all (\<lambda>bs. length bs = length (da_band a) \<and>
       list_all (\<lambda>p. length p = length (da_y a) \<and>
         list_all (\<lambda>row. length row = length (da_x a)) p) bs) (da_values a)"

definition bindE :: "'e + 'a \<Rightarrow> ('a \<Rightarrow> 'e + 'b) \<Rightarrow> 'e + 'b" where
  "bindE m f = (case m of Inl e \<Rightarrow> Inl e | Inr v \<Rightarrow> f v)"

text \<open>
  \<open>scl_data.sel(band='SCL')\<close>: a label that is not in the index raises KeyError;
  otherwise the slice at that label, with the band dimension dropped.
\<close>

definition sel_band :: "'a DataArray \<Rightarrow> string \<Rightarrow> error + 'a DataArray3" where
  "sel_band a b =
     (if b \<notin> set (da_band a) then Inl KeyError
      else let k = length (takeWhile (\<lambda>n. n \<noteq> b) (da_band a))
           in Inr \<lparr>d3_time = da_time a, d3_band = b, d3_y = da_y a, d3_x = da_x a,
                   d3_values = map (\<lambda>bs. bs ! k) (da_values a), d3_attrs = da_attrs a\<rparr>)"

subsection \<open>Constants of the module\<close>

definition SCL_LEGEND :: "(string \<times> int) list" where
  "SCL_LEGEND =
     [(''no_data'', 0), (''saturated_or_defective'', 1), (''dark_area_pixels'', 2),
      (''cloud_shadows'', 3), (''vegetation'', 4), (''not_vegetated'', 5), (''water'', 6),
      (''unclassified'', 7), (''cloud_medium_probability'', 8),
      (''cloud_high_probability'', 9), (''thin_cirrus'', 10), (''snow'', 11)]"

text \<open>\<open>SCL_LEGEND[name]\<close> for the literal names the module looks up.\<close>

definition legend :: "string \<Rightarrow> int" where
  "legend name = (case map_of SCL_LEGEND name of Some c \<Rightarrow> c | None \<Rightarrow> 0)"

definition SCL_MASK_VALUES :: "int list" where
  "SCL_MASK_VALUES = [1, 3, 8, 9, 10, 11]"

subsection \<open>Elementwise operations and reductions\<close>

definition map3 :: "('a \<Rightarrow> 'b) \<Rightarrow> 'a volume \<Rightarrow> 'b volume" where
  "map3 f = map (map (map f))"

text \<open>\<open>da.isin(a, values)\<close>\<close>

definition isin :: "int volume \<Rightarrow> int list \<Rightarrow> bool volume" where
  "isin a vs = map3 (\<lambda>c. c \<in> set vs) a"

text \<open>\<open>a == c\<close> and \<open>a != c\<close> against a scalar\<close>

definition eq_scalar :: "int volume \<Rightarrow> int \<Rightarrow> bool volume" where
  "eq_scalar a c = map3 (\<lambda>v. v = c) a"

definition ne_scalar :: "int volume \<Rightarrow> int \<Rightarrow> bool volume" where
  "ne_scalar a c = map3 (\<lambda>v. v \<noteq> c) a"

text \<open>The shape of a volume: the row lengths of each of its planes.\<close>

definition shape3 :: "'a volume \<Rightarrow> nat list list" where
  "shape3 a = map (map length) a"

text \<open>
  \<open>a & b\<close> on two volumes of the same shape. Where the module applies it to two
  elementwise images of the same array the shapes agree by construction.
\<close>

definition and3 :: "bool volume \<Rightarrow> bool volume \<Rightarrow> bool volume" where
  "and3 a b = map2 (map2 (map2 (\<and>))) a b"

text \<open>\<open>~a\<close>\<close>

definition invert3 :: "bool volume \<Rightarrow> bool volume" where
  "invert3 a = map3 Not a"

text \<open>
  \<open>a.sum(axis=0)\<close> of a boolean (time, y, x) volume: at each pixel the number of
  timesteps that are True. The result has the spatial shape of the array, also when
  there is no timestep.
\<close>

definition sum_axis0 :: "nat \<Rightarrow> nat \<Rightarrow> bool volume \<Rightarrow> nat plane" where
  "sum_axis0 ny nx a =
     map (\<lambda>i. map (\<lambda>j. length (filter (\<lambda>p. p ! i ! j) a)) [0..<nx]) [0..<ny]"

text \<open>\<open>.astype(np.float32)\<close> of a plane of counts\<close>

definition astype_float32 :: "nat plane \<Rightarrow> npfloat plane" where
  "astype_float32 p = map (map (\<lambda>n. Fin (of_nat n))) p"

text \<open>
  A count divided by a floating-point cell. Division by zero does not raise: it gives NaN
  for \<open>0 / 0\<close> and infinity for a positive count.
\<close>

fun np_div :: "nat \<Rightarrow> npfloat \<Rightarrow> npfloat" where
  "np_div n NaN = NaN"
| "np_div n PInf = Fin 0"
| "np_div n (Fin b) = (if b = 0 then (if n = 0 then NaN else PInf) else Fin (of_nat n / b))"

definition truediv :: "nat plane \<Rightarrow> npfloat plane \<Rightarrow> npfloat plane" where
  "truediv cnt obs = map2 (map2 np_div) cnt obs"

text \<open>\<open>a > b\<close> on floating-point cells: every comparison with NaN is False.\<close>

fun np_gt :: "npfloat \<Rightarrow> npfloat \<Rightarrow> bool" where
  "np_gt (Fin a) (Fin b) = (b < a)"
| "np_gt PInf (Fin b) = True"
| "np_gt a b = False"

definition gt_scalar :: "npfloat plane \<Rightarrow> npfloat \<Rightarrow> bool plane" where
  "gt_scalar p thr = map (map (\<lambda>v. np_gt v thr)) p"

text \<open>\<open>m | da.broadcast_to(p, m.shape)\<close>: the plane is repeated at every timestep.\<close>

definition or_broadcast :: "bool volume \<Rightarrow> bool plane \<Rightarrow> bool volume" where
  "or_broadcast m p = map (\<lambda>q. map2 (map2 (\<or>)) q p) m"

subsection \<open>The morphology primitives\<close>

text \<open>
  \<open>footprints.disk\<close>, \<open>binary_erosion\<close> and \<open>binary_dilation\<close> belong to
  libraries outside the repository. The module is modelled over any implementation of
  them: a footprint constructor and two operations on a boolean plane that may raise.
\<close>

record 'fp morphology =
  disk :: "int \<Rightarrow> 'fp"
  binary_erosion :: "bool plane \<Rightarrow> 'fp \<Rightarrow> error + bool plane"
  binary_dilation :: "bool plane \<Rightarrow> 'fp \<Rightarrow> error + bool plane"

text \<open>
  A list comprehension over fallible calls: the results in order, or the first error.
\<close>

fun traverse :: "('a \<Rightarrow> error + 'b) \<Rightarrow> 'a list \<Rightarrow> error + 'b list" where
  "traverse f [] = Inr []"
| "traverse f (x # xs) =
     (case f x of Inl e \<Rightarrow> Inl e
      | Inr y \<Rightarrow> (case traverse f xs of Inl e \<Rightarrow> Inl e | Inr ys \<Rightarrow> Inr (y # ys)))"

text \<open>
  \<open>da.stack(planes)\<close>: raises on an empty sequence and on planes of different shapes;
  otherwise the planes in the order given, along a new leading axis.
\<close>

definition da_stack :: "'a plane list \<Rightarrow> error + 'a volume" where
  "da_stack ps =
     (case ps of [] \<Rightarrow> Inl ValueError
      | p # qs \<Rightarrow> if list_all (\<lambda>q. map length q = map length p) qs then Inr ps
                  else Inl ValueError)"

text \<open>
  Lines 140 to 142. The condition \<open>(erode_r is not None) | (erode_r > 0)\<close> evaluates
  both operands: \<open>None > 0\<close> raises TypeError, and for an integer the left operand is
  True, whatever the radius.
\<close>

definition erode_stage :: "'fp morphology \<Rightarrow> int option \<Rightarrow> bool volume \<Rightarrow> error + bool volume" where
  "erode_stage lib erode_r msk =
     (case erode_r of
        None \<Rightarrow> Inl TypeError
      | Some r \<Rightarrow>
          if True \<or> 0 < r
          then let e = disk lib r
               in bindE (traverse (\<lambda>m. binary_erosion lib m e) msk) da_stack
          else Inr msk)"

text \<open>Lines 144 to 146, the same with the dilation radius.\<close>

definition dilate_stage :: "'fp morphology \<Rightarrow> int option \<Rightarrow> bool volume \<Rightarrow> error + bool volume" where
  "dilate_stage lib dilate_r msk =
     (case dilate_r of
        None \<Rightarrow> Inl TypeError
      | Some r \<Rightarrow>
          if True \<or> 0 < r
          then let d = disk lib r
               in bindE (traverse (\<lambda>m. binary_dilation lib m d) msk) da_stack
          else Inr msk)"

text \<open>Lines 140 to 146: erosion, then dilation of its result.\<close>

definition scl_morphology ::
  "'fp morphology \<Rightarrow> int option \<Rightarrow> int option \<Rightarrow> bool volume \<Rightarrow> error + bool volume" where
  "scl_morphology lib erode_r dilate_r msk =
     bindE (erode_stage lib erode_r msk) (dilate_stage lib dilate_r)"

subsection \<open>preprocess\_scl\<close>

text \<open>
  The local variables of \<open>preprocess_scl\<close> when line 156 has run: the selected band,
  the mask in its final polarity (True for valid), and the seven planes of statistics.
\<close>

record scl_locals =
  l_scl :: "int DataArray3"
  l_mask :: "bool volume"
  l_obs :: "npfloat plane"
  l_invalid_before :: "npfloat plane"
  l_invalid_after :: "npfloat plane"
  l_cover_snow :: "npfloat plane"
  l_cover_water :: "npfloat plane"
  l_cover_veg :: "npfloat plane"
  l_cover_notveg :: "npfloat plane"

text \<open>
  Lines 120 to 156. The argument \<open>mask_values\<close> is overwritten at line 122 before it
  is read. At line 148 the mask that comes out of the morphology primitives meets
  \<open>ts_obs\<close>: operands of different shapes raise.
\<close>

definition preprocess_scl_body ::
  "'fp morphology \<Rightarrow> int DataArray \<Rightarrow> int list option \<Rightarrow> int option \<Rightarrow> int option \<Rightarrow>
   npfloat option \<Rightarrow> error + scl_locals" where
  "preprocess_scl_body lib scl_data mask_values erode_r dilate_r max_invalid_ratio =
     bindE (sel_band scl_data ''SCL'') (\<lambda>scl.
       let mask_values = SCL_MASK_VALUES;
           msk = isin (d3_values scl) mask_values;
           snow = eq_scalar (d3_values scl) (legend ''snow'');
           water = eq_scalar (d3_values scl) (legend ''water'');
           veg = eq_scalar (d3_values scl) (legend ''vegetation'');
           notveg = eq_scalar (d3_values scl) (legend ''not_vegetated'');
           ny = length (d3_y scl);
           nx = length (d3_x scl);
           ts_obs = ne_scalar (d3_values scl) 0;
           obs = astype_float32 (sum_axis0 ny nx ts_obs);
           ma_mask = and3 msk ts_obs;
           invalid_before = truediv (sum_axis0 ny nx ma_mask) obs;
           cover_snow = truediv (sum_axis0 ny nx (and3 snow ts_obs)) obs;
           cover_water = truediv (sum_axis0 ny nx (and3 water ts_obs)) obs;
           cover_veg = truediv (sum_axis0 ny nx (and3 veg ts_obs)) obs;
           cover_notveg = truediv (sum_axis0 ny nx (and3 notveg ts_obs)) obs
       in bindE (scl_morphology lib erode_r dilate_r msk) (\<lambda>msk.
            if shape3 msk \<noteq> shape3 ts_obs then Inl ValueError
            else
              let ma_mask = and3 msk ts_obs;
                  invalid_after = truediv (sum_axis0 ny nx ma_mask) obs;
                  msk = invert3 msk;
                  msk = (case max_invalid_ratio of
                           None \<Rightarrow> msk
                         | Some thr \<Rightarrow> or_broadcast msk (gt_scalar invalid_after thr))
              in Inr \<lparr>l_scl = scl, l_mask = msk, l_obs = obs,
                      l_invalid_before = invalid_before, l_invalid_after = invalid_after,
                      l_cover_snow = cover_snow, l_cover_water = cover_water,
                      l_cover_veg = cover_veg, l_cover_notveg = cover_notveg\<rparr>))"

text \<open>
  The statistics planes that lines 122 to 138 compute from the selected band, before the
  radii are looked at. Nothing in these lines raises.
\<close>

record scl_stats =
  st_obs :: "npfloat plane"
  st_invalid_before :: "npfloat plane"
  st_cover_snow :: "npfloat plane"
  st_cover_water :: "npfloat plane"
  st_cover_veg :: "npfloat plane"
  st_cover_notveg :: "npfloat plane"

definition scl_statistics :: "int DataArray3 \<Rightarrow> scl_stats" where
  "scl_statistics scl =
     (let mask_values = SCL_MASK_VALUES;
          msk = isin (d3_values scl) mask_values;
          snow = eq_scalar (d3_values scl) (legend ''snow'');
          water = eq_scalar (d3_values scl) (legend ''water'');
          veg = eq_scalar (d3_values scl) (legend ''vegetation'');
          notveg = eq_scalar (d3_values scl) (legend ''not_vegetated'');
          ny = length (d3_y scl);
          nx = length (d3_x scl);
          ts_obs = ne_scalar (d3_values scl) 0;
          obs = astype_float32 (sum_axis0 ny nx ts_obs);
          ma_mask = and3 msk ts_obs;
          invalid_before = truediv (sum_axis0 ny nx ma_mask) obs;
          cover_snow = truediv (sum_axis0 ny nx (and3 snow ts_obs)) obs;
          cover_water = truediv (sum_axis0 ny nx (and3 water ts_obs)) obs;
          cover_veg = truediv (sum_axis0 ny nx (and3 veg ts_obs)) obs;
          cover_notveg = truediv (sum_axis0 ny nx (and3 notveg ts_obs)) obs
      in \<lparr>st_obs = obs, st_invalid_before = invalid_before, st_cover_snow = cover_snow,
          st_cover_water = cover_water, st_cover_veg = cover_veg,
          st_cover_notveg = cover_notveg\<rparr>)"

text \<open>
  Lines 158 to 161: the mask takes the coordinates and attributes of the selected band
  and gets a band dimension of length one, labelled SCL, at axis 1.
\<close>

definition mask_assemble :: "int DataArray3 \<Rightarrow> bool volume \<Rightarrow> bool DataArray" where
  "mask_assemble scl msk =
     \<lparr>da_time = d3_time scl, da_band = [''SCL''], da_y = d3_y scl, da_x = d3_x scl,
      da_values = map (\<lambda>p. [p]) msk, da_attrs = d3_attrs scl\<rparr>"

text \<open>Lines 120 to 161: the validity mask that line 185 hands to the container.\<close>

definition scl_mask_output ::
  "'fp morphology \<Rightarrow> int DataArray \<Rightarrow> int list option \<Rightarrow> int option \<Rightarrow> int option \<Rightarrow>
   npfloat option \<Rightarrow> error + bool DataArray" where
  "scl_mask_output lib scl_data mask_values erode_r dilate_r max_invalid_ratio =
     bindE (preprocess_scl_body lib scl_data mask_values erode_r dilate_r max_invalid_ratio)
       (\<lambda>L. Inr (mask_assemble (l_scl L) (l_mask L)))"

subsection \<open>Assembly of the auxiliary array\<close>

text \<open>An unlabelled array: its shape and its cells in row-major order.\<close>

record 'a ndarray =
  nd_shape :: "nat list"
  nd_data :: "'a list"

text \<open>A (y, x) plane as an array of two dimensions.\<close>

definition asarray2 :: "nat \<Rightarrow> nat \<Rightarrow> 'a plane \<Rightarrow> 'a ndarray" where
  "asarray2 ny nx p = \<lparr>nd_shape = [ny, nx], nd_data = concat p\<rparr>"

text \<open>
  \<open>da.concatenate(arrays, axis=0)\<close> joins the arrays along their existing first
  axis: the result has as many dimensions as each operand, and its first length is the sum
  of theirs. The operands must agree on every other length.
\<close>

definition da_concatenate0 :: "'a ndarray list \<Rightarrow> error + 'a ndarray" where
  "da_concatenate0 arrs =
     (case arrs of
        [] \<Rightarrow> Inl ValueError
      | a # rest \<Rightarrow>
          (case nd_shape a of
             [] \<Rightarrow> Inl ValueError
           | n # sh \<Rightarrow>
               if list_all (\<lambda>b. nd_shape b \<noteq> [] \<and> tl (nd_shape b) = sh) rest
               then Inr \<lparr>nd_shape = sum_list (map (\<lambda>b. hd (nd_shape b)) arrs) # sh,
                         nd_data = concat (map nd_data arrs)\<rparr>
               else Inl ValueError))"

text \<open>Row-major cells as nested lists of four levels.\<close>

definition nest4 :: "nat \<Rightarrow> nat \<Rightarrow> nat \<Rightarrow> nat \<Rightarrow> 'a list \<Rightarrow> 'a list list list list" where
  "nest4 nt nb ny nx d =
     map (\<lambda>t. map (\<lambda>b. map (\<lambda>i. map (\<lambda>j. d ! (((t * nb + b) * ny + i) * nx + j))
       [0..<nx]) [0..<ny]) [0..<nb]) [0..<nt]"

text \<open>
  \<open>xr.DataArray(data, dims=..., coords=..., attrs=...)\<close> for the four dimensions
  (time, band, y, x): the data must have as many dimensions as there are names, and each
  coordinate the length of its dimension; otherwise ValueError.
\<close>

definition xr_DataArray ::
  "'a ndarray \<Rightarrow> string list \<Rightarrow> int list \<Rightarrow> string list \<Rightarrow> rat list \<Rightarrow> rat list \<Rightarrow>
   (string \<times> string) list \<Rightarrow> error + 'a DataArray" where
  "xr_DataArray arr dims time band y x attrs =
     (if length (nd_shape arr) \<noteq> length dims then Inl ValueError
      else if nd_shape arr \<noteq> [length time, length band, length y, length x] then Inl ValueError
      else Inr \<lparr>da_time = time, da_band = band, da_y = y, da_x = x,
                da_values = nest4 (length time) (length band) (length y) (length x) (nd_data arr),
                da_attrs = attrs\<rparr>)"

subsection \<open>The container and the whole function\<close>

record SCLMask =
  mask :: "bool DataArray"
  aux :: "npfloat DataArray"

definition aux_names :: "string list" where
  "aux_names = [''l2a_obs'', ''scl_invalid_before'', ''scl_invalid_after'', ''scl_snow_cover'',
                ''scl_water_cover'', ''scl_veg_cover'', ''scl_notveg_cover'']"

text \<open>
  \<open>preprocess_scl\<close>, lines 120 to 185. The seven (y, x) planes are concatenated along
  axis 0 (lines 168 to 174) and the result is labelled with four dimensions (lines 177 to
  183); \<open>mask.time.values[0]\<close> is read while the arguments of that call are evaluated.
  The cast to float32 of line 174 leaves the cells of the model as they are.
\<close>

definition preprocess_scl ::
  "'fp morphology \<Rightarrow> int DataArray \<Rightarrow> int list option \<Rightarrow> int option \<Rightarrow> int option \<Rightarrow>
   npfloat option \<Rightarrow> error + SCLMask" where
  "preprocess_scl lib scl_data mask_values erode_r dilate_r max_invalid_ratio =
     bindE (preprocess_scl_body lib scl_data mask_values erode_r dilate_r max_invalid_ratio)
       (\<lambda>L.
         let msk = mask_assemble (l_scl L) (l_mask L);
             ny = length (da_y msk);
             nx = length (da_x msk)
         in bindE (da_concatenate0 (map (asarray2 ny nx)
                     [l_obs L, l_invalid_before L, l_invalid_after L, l_cover_snow L,
                      l_cover_water L, l_cover_veg L, l_cover_notveg L]))
              (\<lambda>a. case da_time msk of
                     [] \<Rightarrow> Inl IndexError
                   | t0 # ts \<Rightarrow>
                       bindE (xr_DataArray a [''time'', ''band'', ''y'', ''x''] [t0] aux_names
                                (da_y msk) (da_x msk) (da_attrs msk))
                         (\<lambda>scl_aux. Inr \<lparr>mask = msk, aux = scl_aux\<rparr>)))"

subsection \<open>SCLMask.clip\<close>

text \<open>
  The geometry clip of the array library, \<open>rio.clip(geometries, crs, all_touched, drop)\<close>,
  which the repository calls and does not contain: it crops an array to a sequence of
  geometries. The module only ever calls it with numbers in its four positions (line 56
  unpacks the bounds into the positional parameters); a number is not a sequence of
  geometries, and the call raises TypeError whatever the numbers and the array are.
\<close>

definition rio_clip :: "rat \<Rightarrow> rat \<Rightarrow> rat \<Rightarrow> rat \<Rightarrow> 'a DataArray \<Rightarrow> error + 'a DataArray" where
  "rio_clip geometries crs all_touched drop_arg a = Inl TypeError"

text \<open>
  Lines 55 to 58. \<open>bounds\<close> is a bounding rectangle (xmin, ymin, xmax, ymax), as the
  \<open>bounds\<close> property of the accessor returns it; \<open>rio.clip(*bounds)\<close> binds its four
  numbers to \<open>geometries\<close>, \<open>crs\<close>, \<open>all_touched\<close> and \<open>drop\<close>, for the mask first
  and then for the aux; a new container holds the results.
\<close>

definition clip :: "SCLMask \<Rightarrow> rat \<times> rat \<times> rat \<times> rat \<Rightarrow> error + SCLMask" where
  "clip self bounds =
     (case bounds of (xmin, ymin, xmax, ymax) \<Rightarrow>
        bindE (rio_clip xmin ymin xmax ymax (mask self)) (\<lambda>new_mask.
        bindE (rio_clip xmin ymin xmax ymax (aux self)) (\<lambda>new_aux.
          Inr \<lparr>mask = new_mask, aux = new_aux\<rparr>)))"

text \<open>
  Modelled from the spec: the spatial-crop primitive that section 4.2 describes, a crop
  of a labelled array to a geographic bounding rectangle (xmin, ymin, xmax, ymax); in
  the array library this is \<open>rio.clip_box\<close>, which the module does not call. The rows
  and columns whose coordinates lie in the rectangle are kept, in their order, with their
  cells; a rectangle that holds no row or no column is an error.
\<close>

definition rio_clip_box :: "rat \<times> rat \<times> rat \<times> rat \<Rightarrow> 'a DataArray \<Rightarrow> error + 'a DataArray" where
  "rio_clip_box bounds a =
     (case bounds of (xmin, ymin, xmax, ymax) \<Rightarrow>
        let ky = filter (\<lambda>i. ymin \<le> da_y a ! i \<and> da_y a ! i \<le> ymax) [0..<length (da_y a)];
            kx = filter (\<lambda>j. xmin \<le> da_x a ! j \<and> da_x a ! j \<le> xmax) [0..<length (da_x a)]
        in if ky = [] \<or> kx = [] then Inl ValueError
           else Inr (a\<lparr>da_y := map (\<lambda>i. da_y a ! i) ky, da_x := map (\<lambda>j. da_x a ! j) kx,
                       da_values :=
                         map (map (\<lambda>p. map (\<lambda>i. map (\<lambda>j. p ! i ! j) kx) ky)) (da_values a)\<rparr>))"

subsection \<open>An instance of the morphology primitives\<close>

text \<open>
  To run the module on concrete stacks, the primitives are instantiated as their
  libraries document them. \<open>footprints.disk(r)\<close> is the square of side \<open>2r + 1\<close>
  whose cell at offset (dy, dx) from the centre is set when \<open>dx\<^sup>2 + dy\<^sup>2 \<le> r\<^sup>2\<close>;
  a negative radius gives an empty footprint. Binary erosion sets a pixel when every set
  cell of the footprint, centred on the pixel, covers a set pixel; binary dilation when
  some set cell, reflected, does; pixels outside the plane count as unset; an empty
  footprint raises.
\<close>

definition footprint_disk :: "int \<Rightarrow> bool plane" where
  "footprint_disk r = map (\<lambda>dy. map (\<lambda>dx. dx * dx + dy * dy \<le> r * r) [- r..r]) [- r..r]"

definition struct_offsets :: "bool plane \<Rightarrow> (int \<times> int) list" where
  "struct_offsets S =
     concat (map (\<lambda>a. concat (map (\<lambda>b.
       if S ! a ! b
       then [(int a - int (length S div 2), int b - int (length (S ! a) div 2))]
       else []) [0..<length (S ! a)])) [0..<length S])"

definition pixel_at :: "bool plane \<Rightarrow> int \<Rightarrow> int \<Rightarrow> bool" where
  "pixel_at m i j \<longleftrightarrow>
     0 \<le> i \<and> i < int (length m) \<and> 0 \<le> j \<and> j < int (length (m ! nat i)) \<and> m ! nat i ! nat j"

definition ndi_binary_erosion :: "bool plane \<Rightarrow> bool plane \<Rightarrow> error + bool plane" where
  "ndi_binary_erosion m S =
     (if concat S = [] then Inl RuntimeError
      else Inr (map (\<lambda>i. map (\<lambda>j.
             list_all (\<lambda>(a, b). pixel_at m (int i + a) (int j + b)) (struct_offsets S))
             [0..<length (m ! i)]) [0..<length m]))"

definition ndi_binary_dilation :: "bool plane \<Rightarrow> bool plane \<Rightarrow> error + bool plane" where
  "ndi_binary_dilation m S =
     (if concat S = [] then Inl RuntimeError
      else Inr (map (\<lambda>i. map (\<lambda>j.
             list_ex (\<lambda>(a, b). pixel_at m (int i - a) (int j - b)) (struct_offsets S))
             [0..<length (m ! i)]) [0..<length m]))"

definition ndimage :: "bool plane morphology" where
  "ndimage = \<lparr>disk = footprint_disk, binary_erosion = ndi_binary_erosion,
              binary_dilation = ndi_binary_dilation\<rparr>"

subsection \<open>Notions used in the statements\<close>

text \<open>A volume whose planes all have \<open>ny\<close> rows of \<open>nx\<close> cells.\<close>

definition rect3 :: "nat \<Rightarrow> nat \<Rightarrow> 'a volume \<Rightarrow> bool" where
  "rect3 ny nx a \<longleftrightarrow>
     (\<forall>t<length a. length (a ! t) = ny \<and> (\<forall>i<ny. length (a ! t ! i) = nx))"

text \<open>
  The number of timesteps at which the code of pixel \<open>(i, j)\<close> satisfies \<open>P\<close>.
\<close>

definition count_timesteps :: "(int \<Rightarrow> bool) \<Rightarrow> int volume \<Rightarrow> nat \<Rightarrow> nat \<Rightarrow> nat" where
  "count_timesteps P a i j = length (filter (\<lambda>t. P (a ! t ! i ! j)) [0..<length a])"

subsection \<open>Concrete stacks\<close>

text \<open>
  Three timesteps of one SCL band over two by two pixels: pixel (0, 0) is cloud, cloud,
  vegetation; every other pixel is vegetation throughout.
\<close>

definition example_stack :: "int DataArray" where
  "example_stack =
     \<lparr>da_time = [10, 20, 30], da_band = [''SCL''], da_y = [1, 0], da_x = [0, 1],
      da_values = [[[[9, 4], [4, 4]]], [[[9, 4], [4, 4]]], [[[4, 4], [4, 4]]]],
      da_attrs = []\<rparr>"

text \<open>
  Two timesteps of a reflectance band and the SCL band over one row of two pixels: pixel
  (0, 0) is never observed, pixel (0, 1) is unobserved, then cloud.
\<close>

definition nodata_stack :: "int DataArray" where
  "nodata_stack =
     \<lparr>da_time = [10, 20], da_band = [''B04'', ''SCL''], da_y = [0], da_x = [0, 1],
      da_values = [[[[120, 130]], [[0, 0]]], [[[140, 150]], [[0, 9]]]],
      da_attrs = [(''bounds'', ''-1/2,-1/2,3/2,1/2'')]\<rparr>"



text \<open>
  The local variables after line 156 for \<open>example_stack\<close>, both radii 0 and a
  threshold of one half.
\<close>

definition example_locals :: scl_locals where
  "example_locals =
     \<lparr>l_scl = \<lparr>d3_time = [10, 20, 30], d3_band = ''SCL'', d3_y = [1, 0], d3_x = [0, 1],
                d3_values = [[[9, 4], [4, 4]], [[9, 4], [4, 4]], [[4, 4], [4, 4]]],
                d3_attrs = []\<rparr>,
      l_mask = [[[True, True], [True, True]], [[True, True], [True, True]],
                [[True, True], [True, True]]],
      l_obs = [[Fin 3, Fin 3], [Fin 3, Fin 3]],
      l_invalid_before = [[Fin (2 / 3), Fin 0], [Fin 0, Fin 0]],
      l_invalid_after = [[Fin (2 / 3), Fin 0], [Fin 0, Fin 0]],
      l_cover_snow = [[Fin 0, Fin 0], [Fin 0, Fin 0]],
      l_cover_water = [[Fin 0, Fin 0], [Fin 0, Fin 0]],
      l_cover_veg = [[Fin (1 / 3), Fin 1], [Fin 1, Fin 1]],
      l_cover_notveg = [[Fin 0, Fin 0], [Fin 0, Fin 0]]\<rparr>"

text \<open>The same for \<open>nodata_stack\<close>, both radii 0 and no threshold.\<close>

definition nodata_scl :: "int DataArray3" where
  "nodata_scl =
     \<lparr>d3_time = [10, 20], d3_band = ''SCL'', d3_y = [0], d3_x = [0, 1],
      d3_values = [[[0, 0]], [[0, 9]]], d3_attrs = [(''bounds'', ''-1/2,-1/2,3/2,1/2'')]\<rparr>"

definition nodata_locals :: scl_locals where
  "nodata_locals =
     \<lparr>l_scl = nodata_scl,
      l_mask = [[[True, True]], [[True, False]]],
      l_obs = [[Fin 0, Fin 1]],
      l_invalid_before = [[NaN, Fin 1]],
      l_invalid_after = [[NaN, Fin 1]],
      l_cover_snow = [[NaN, Fin 0]],
      l_cover_water = [[NaN, Fin 0]],
      l_cover_veg = [[NaN, Fin 0]],
      l_cover_notveg = [[NaN, Fin 0]]\<rparr>"

text \<open>
  A container as the docstring of \<open>preprocess_scl\<close> describes its result for
  \<open>example_stack\<close> without a threshold: the mask over three timesteps and one band, the
  seven bands of statistics at the first timestamp.
\<close>

definition example_container :: SCLMask where
  "example_container =
     \<lparr>mask = \<lparr>da_time = [10, 20, 30], da_band = [''SCL''], da_y = [1, 0], da_x = [0, 1],
               da_values = [[[[False, True], [True, True]]], [[[False, True], [True, True]]],
                            [[[True, True], [True, True]]]],
               da_attrs = []\<rparr>,
      aux = \<lparr>da_time = [10], da_band = aux_names, da_y = [1, 0], da_x = [0, 1],
              da_values = [[[[Fin 3, Fin 3], [Fin 3, Fin 3]],
                            [[Fin (2 / 3), Fin 0], [Fin 0, Fin 0]],
                            [[Fin (2 / 3), Fin 0], [Fin 0, Fin 0]],
                            [[Fin 0, Fin 0], [Fin 0, Fin 0]],
                            [[Fin 0, Fin 0], [Fin 0, Fin 0]],
                            [[Fin (1 / 3), Fin 1], [Fin 1, Fin 1]],
                            [[Fin 0, Fin 0], [Fin 0, Fin 0]]]],
              da_attrs = []\<rparr>\<rparr>"

text \<open>
  The same container cropped to the rectangle (0, 1/2, 1/2, 3/2), which holds the pixel
  at y = 1, x = 0.
\<close>

definition clipped_container :: SCLMask where
  "clipped_container =
     \<lparr>mask = \<lparr>da_time = [10, 20, 30], da_band = [''SCL''], da_y = [1], da_x = [0],
               da_values = [[[[False]]], [[[False]]], [[[True]]]], da_attrs = []\<rparr>,
      aux = \<lparr>da_time = [10], da_band = aux_names, da_y = [1], da_x = [0],
              da_values = [[[[Fin 3]], [[Fin (2 / 3)]], [[Fin (2 / 3)]], [[Fin 0]], [[Fin 0]],
                            [[Fin (1 / 3)]], [[Fin 0]]]],
              da_attrs = []\<rparr>\<rparr>"

section \<open>Properties\<close>

subsection \<open>Results and errors\<close>

lemma bindE_Inr_iff: "bindE m f = Inr r \<longleftrightarrow> (\<exists>v. m = Inr v \<and> f v = Inr r)"
  by (cases m) (simp_all add: bindE_def)

lemma traverse_Inr:
  "traverse f xs = Inr ys \<Longrightarrow>
     length ys = length xs \<and> (\<forall>t<length xs. f (xs ! t) = Inr (ys ! t))"
proof (induction xs arbitrary: ys)
  case Nil
  then show ?case by simp
next
  case (Cons x xs)
  from Cons.prems obtain y zs where fx: "f x = Inr y" and tr: "traverse f xs = Inr zs"
    and ys: "ys = y # zs"
    by (auto split: sum.splits)
  from Cons.IH [OF tr] have len: "length zs = length xs"
    and nth: "\<forall>t<length xs. f (xs ! t) = Inr (zs ! t)" by simp_all
  show ?case
  proof (intro conjI allI impI)
    show "length ys = length (x # xs)" using len ys by simp
  next
    fix t assume "t < length (x # xs)"
    then show "f ((x # xs) ! t) = Inr (ys ! t)"
      using fx nth ys by (cases t) simp_all
  qed
qed

lemma da_stack_Inr: "da_stack ps = Inr v \<Longrightarrow> v = ps \<and> ps \<noteq> []"
  by (auto simp: da_stack_def split: list.splits if_splits)

subsection \<open>Morphology\<close>

lemma erode_stage_Some:
  assumes "erode_stage lib (Some r) msk = Inr out"
  shows "length out = length msk" and "msk \<noteq> []"
    and "\<forall>t<length msk. binary_erosion lib (msk ! t) (disk lib r) = Inr (out ! t)"
proof -
  from assms obtain es where tr: "traverse (\<lambda>m. binary_erosion lib m (disk lib r)) msk = Inr es"
    and st: "da_stack es = Inr out"
    by (auto simp: erode_stage_def bindE_Inr_iff)
  from da_stack_Inr [OF st] have eq: "out = es" and ne: "es \<noteq> []" by simp_all
  from traverse_Inr [OF tr] have len: "length es = length msk"
    and nth: "\<forall>t<length msk. binary_erosion lib (msk ! t) (disk lib r) = Inr (es ! t)"
    by simp_all
  show "length out = length msk" using eq len by simp
  show "msk \<noteq> []" using ne len by auto
  show "\<forall>t<length msk. binary_erosion lib (msk ! t) (disk lib r) = Inr (out ! t)"
    using nth eq by simp
qed

lemma dilate_stage_Some:
  assumes "dilate_stage lib (Some r) msk = Inr out"
  shows "length out = length msk" and "msk \<noteq> []"
    and "\<forall>t<length msk. binary_dilation lib (msk ! t) (disk lib r) = Inr (out ! t)"
proof -
  from assms obtain ds where tr: "traverse (\<lambda>m. binary_dilation lib m (disk lib r)) msk = Inr ds"
    and st: "da_stack ds = Inr out"
    by (auto simp: dilate_stage_def bindE_Inr_iff)
  from da_stack_Inr [OF st] have eq: "out = ds" and ne: "ds \<noteq> []" by simp_all
  from traverse_Inr [OF tr] have len: "length ds = length msk"
    and nth: "\<forall>t<length msk. binary_dilation lib (msk ! t) (disk lib r) = Inr (ds ! t)"
    by simp_all
  show "length out = length msk" using eq len by simp
  show "msk \<noteq> []" using ne len by auto
  show "\<forall>t<length msk. binary_dilation lib (msk ! t) (disk lib r) = Inr (out ! t)"
    using nth eq by simp
qed

lemma scl_morphology_Inr_radii:
  "scl_morphology lib erode_r dilate_r msk = Inr out \<Longrightarrow>
     \<exists>r d. erode_r = Some r \<and> dilate_r = Some d"
  by (cases erode_r; cases dilate_r)
     (auto simp: scl_morphology_def erode_stage_def dilate_stage_def bindE_def
           split: sum.splits)



subsection \<open>Shapes and cells\<close>

lemma takeWhile_index_less:
  "b \<in> set xs \<Longrightarrow> length (takeWhile (\<lambda>n. n \<noteq> b) xs) < length xs"
  by (induction xs) auto

lemma sel_band_Inr:
  assumes "sel_band a b = Inr scl"
  shows "d3_time scl = da_time a" "d3_y scl = da_y a" "d3_x scl = da_x a"
    "d3_attrs scl = da_attrs a" "b \<in> set (da_band a)"
    "d3_values scl = map (\<lambda>bs. bs ! length (takeWhile (\<lambda>n. n \<noteq> b) (da_band a))) (da_values a)"
  using assms by (auto simp: sel_band_def Let_def split: if_splits)

lemma sel_band_shape:
  assumes wf: "wf_stack a" and sel: "sel_band a b = Inr scl"
  shows "length (d3_values scl) = length (da_time a)"
    and "\<forall>t<length (da_time a). length (d3_values scl ! t) = length (da_y a) \<and>
           (\<forall>i<length (da_y a). length (d3_values scl ! t ! i) = length (da_x a))"
proof -
  let ?k = "length (takeWhile (\<lambda>n. n \<noteq> b) (da_band a))"
  have k: "?k < length (da_band a)"
    using sel_band_Inr(5) [OF sel] by (rule takeWhile_index_less)
  have vals: "d3_values scl = map (\<lambda>bs. bs ! ?k) (da_values a)"
    using sel_band_Inr(6) [OF sel] .
  have len: "length (da_values a) = length (da_time a)" using wf by (simp add: wf_stack_def)
  show "length (d3_values scl) = length (da_time a)" using vals len by simp
  show "\<forall>t<length (da_time a). length (d3_values scl ! t) = length (da_y a) \<and>
           (\<forall>i<length (da_y a). length (d3_values scl ! t ! i) = length (da_x a))"
  proof (intro allI impI)
    fix t assume t: "t < length (da_time a)"
    then have mem: "da_values a ! t \<in> set (da_values a)" using len by simp
    from wf mem have bs: "length (da_values a ! t) = length (da_band a)"
      and pl: "list_all (\<lambda>p. length p = length (da_y a) \<and>
                 list_all (\<lambda>row. length row = length (da_x a)) p) (da_values a ! t)"
      by (auto simp: wf_stack_def list_all_iff)
    have pk: "da_values a ! t ! ?k \<in> set (da_values a ! t)" using k bs by simp
    from pl pk have py: "length (da_values a ! t ! ?k) = length (da_y a)"
      and rows: "list_all (\<lambda>row. length row = length (da_x a)) (da_values a ! t ! ?k)"
      by (auto simp: list_all_iff)
    have eq: "d3_values scl ! t = da_values a ! t ! ?k" using vals t len by simp
    show "length (d3_values scl ! t) = length (da_y a) \<and>
           (\<forall>i<length (da_y a). length (d3_values scl ! t ! i) = length (da_x a))"
      using eq py rows by (auto simp: list_all_iff)
  qed
qed

lemma sel_band_rect3:
  assumes wf: "wf_stack a" and sel: "sel_band a b = Inr scl"
  shows "rect3 (length (da_y a)) (length (da_x a)) (d3_values scl)"
  using sel_band_shape [OF wf sel] by (simp add: rect3_def)

lemma shape3_map3: "shape3 (map3 f a) = shape3 a"
  by (simp add: shape3_def map3_def)

lemma shape3_eqD:
  assumes "shape3 a = shape3 b"
  shows "length a = length b"
    and "t < length b \<Longrightarrow> length (a ! t) = length (b ! t)"
    and "t < length b \<Longrightarrow> i < length (b ! t) \<Longrightarrow> length (a ! t ! i) = length (b ! t ! i)"
proof -
  from assms have m: "map (map length) a = map (map length) b" by (simp add: shape3_def)
  from m show len: "length a = length b" by (rule map_eq_imp_length_eq)
  {
    assume t: "t < length b"
    from m have "map (map length) a ! t = map (map length) b ! t" by simp
    with t len have r: "map length (a ! t) = map length (b ! t)" by simp
    then show "length (a ! t) = length (b ! t)" by (rule map_eq_imp_length_eq)
    then have lt: "length (a ! t) = length (b ! t)" .
    {
      assume i: "i < length (b ! t)"
      from r have "map length (a ! t) ! i = map length (b ! t) ! i" by simp
      with i lt show "length (a ! t ! i) = length (b ! t ! i)" by simp
    }
  }
qed

lemma shape3_rect3:
  assumes "shape3 a = shape3 b" and "rect3 ny nx b"
  shows "rect3 ny nx a"
  using assms(2) shape3_eqD [OF assms(1)] by (simp add: rect3_def)

lemma rect3_map3: "rect3 ny nx a \<Longrightarrow> rect3 ny nx (map3 f a)"
  by (rule shape3_rect3 [OF shape3_map3])

lemma map3_nth:
  "rect3 ny nx a \<Longrightarrow> t < length a \<Longrightarrow> i < ny \<Longrightarrow> j < nx \<Longrightarrow> map3 f a ! t ! i ! j = f (a ! t ! i ! j)"
  by (simp add: rect3_def map3_def)

lemma and3_nth:
  assumes "rect3 ny nx a" "rect3 ny nx b" "length a = length b" "t < length a" "i < ny" "j < nx"
  shows "and3 a b ! t ! i ! j = (a ! t ! i ! j \<and> b ! t ! i ! j)"
  using assms by (simp add: and3_def rect3_def)

lemma length_and3: "length a = length b \<Longrightarrow> length (and3 a b) = length a"
  by (simp add: and3_def)

lemma sum_axis0_nth:
  "i < ny \<Longrightarrow> j < nx \<Longrightarrow> sum_axis0 ny nx a ! i ! j = length (filter (\<lambda>p. p ! i ! j) a)"
  by (simp add: sum_axis0_def)

lemma sum_axis0_shape:
  "length (sum_axis0 ny nx a) = ny" "i < ny \<Longrightarrow> length (sum_axis0 ny nx a ! i) = nx"
  by (simp_all add: sum_axis0_def)

lemma count_pixel:
  assumes "\<forall>t<length a. a ! t ! i ! j = P t"
  shows "length (filter (\<lambda>p. p ! i ! j) a) = length (filter P [0..<length a])"
proof -
  have "filter (\<lambda>p. p ! i ! j) a = filter (\<lambda>p. p ! i ! j) (map (\<lambda>t. a ! t) [0..<length a])"
    by (simp add: map_nth)
  also have "length \<dots> = length (filter (\<lambda>t. a ! t ! i ! j) [0..<length a])"
    by (simp add: filter_map comp_def)
  also have "filter (\<lambda>t. a ! t ! i ! j) [0..<length a] = filter P [0..<length a]"
    using assms by (intro filter_cong) auto
  finally show ?thesis .
qed

lemma truediv_nth:
  "i < length c \<Longrightarrow> i < length ob \<Longrightarrow> j < length (c ! i) \<Longrightarrow> j < length (ob ! i) \<Longrightarrow>
   truediv c ob ! i ! j = np_div (c ! i ! j) (ob ! i ! j)"
  by (simp add: truediv_def)

lemma astype_float32_nth:
  "i < length c \<Longrightarrow> j < length (c ! i) \<Longrightarrow> astype_float32 c ! i ! j = Fin (of_nat (c ! i ! j))"
  by (simp add: astype_float32_def)

lemma astype_float32_shape:
  "length (astype_float32 c) = length c" "i < length c \<Longrightarrow> length (astype_float32 c ! i) = length (c ! i)"
  by (simp_all add: astype_float32_def)

lemma ratio_nth:
  assumes "i < ny" "j < nx"
  shows "truediv (sum_axis0 ny nx a) (astype_float32 (sum_axis0 ny nx b)) ! i ! j =
         np_div (length (filter (\<lambda>p. p ! i ! j) a)) (Fin (of_nat (length (filter (\<lambda>p. p ! i ! j) b))))"
  using assms
  by (simp add: truediv_nth astype_float32_nth astype_float32_shape sum_axis0_shape sum_axis0_nth)

lemma or_broadcast_nth:
  assumes "rect3 ny nx m" "length p = ny" "\<forall>i<ny. length (p ! i) = nx"
    "t < length m" "i < ny" "j < nx"
  shows "or_broadcast m p ! t ! i ! j = (m ! t ! i ! j \<or> p ! i ! j)"
  using assms by (simp add: or_broadcast_def rect3_def)

lemma rect3_or_broadcast:
  assumes "rect3 ny nx m" "length p = ny" "\<forall>i<ny. length (p ! i) = nx"
  shows "rect3 ny nx (or_broadcast m p)"
  using assms by (simp add: or_broadcast_def rect3_def)

lemma length_or_broadcast: "length (or_broadcast m p) = length m"
  by (simp add: or_broadcast_def)

lemma ratio_shape:
  "length (truediv (sum_axis0 ny nx a) (astype_float32 (sum_axis0 ny nx b))) = ny"
  "i < ny \<Longrightarrow> length (truediv (sum_axis0 ny nx a) (astype_float32 (sum_axis0 ny nx b)) ! i) = nx"
  by (simp_all add: truediv_def astype_float32_def sum_axis0_def)

lemma gt_scalar_shape:
  "length (gt_scalar p thr) = length p" "i < length p \<Longrightarrow> length (gt_scalar p thr ! i) = length (p ! i)"
  by (simp_all add: gt_scalar_def)

lemma gt_scalar_nth:
  "i < length p \<Longrightarrow> j < length (p ! i) \<Longrightarrow> gt_scalar p thr ! i ! j = np_gt (p ! i ! j) thr"
  by (simp add: gt_scalar_def)

lemma body_Inr:
  assumes "preprocess_scl_body lib s mv er dr thr = Inr L"
  obtains scl post where
    "sel_band s ''SCL'' = Inr scl"
    "scl_morphology lib er dr (isin (d3_values scl) SCL_MASK_VALUES) = Inr post"
    "shape3 post = shape3 (d3_values scl)"
    "l_scl L = scl"
    "l_obs L = astype_float32 (sum_axis0 (length (d3_y scl)) (length (d3_x scl))
                 (ne_scalar (d3_values scl) 0))"
    "l_invalid_after L =
       truediv (sum_axis0 (length (d3_y scl)) (length (d3_x scl))
                  (and3 post (ne_scalar (d3_values scl) 0))) (l_obs L)"
    "l_mask L = (case thr of None \<Rightarrow> invert3 post
                 | Some v \<Rightarrow> or_broadcast (invert3 post) (gt_scalar (l_invalid_after L) v))"
    "l_invalid_before L =
       truediv (sum_axis0 (length (d3_y scl)) (length (d3_x scl))
                  (and3 (isin (d3_values scl) SCL_MASK_VALUES) (ne_scalar (d3_values scl) 0)))
               (l_obs L)"
    "l_cover_snow L =
       truediv (sum_axis0 (length (d3_y scl)) (length (d3_x scl))
                  (and3 (eq_scalar (d3_values scl) (legend ''snow'')) (ne_scalar (d3_values scl) 0)))
               (l_obs L)"
    "l_cover_water L =
       truediv (sum_axis0 (length (d3_y scl)) (length (d3_x scl))
                  (and3 (eq_scalar (d3_values scl) (legend ''water'')) (ne_scalar (d3_values scl) 0)))
               (l_obs L)"
    "l_cover_veg L =
       truediv (sum_axis0 (length (d3_y scl)) (length (d3_x scl))
                  (and3 (eq_scalar (d3_values scl) (legend ''vegetation'')) (ne_scalar (d3_values scl) 0)))
               (l_obs L)"
    "l_cover_notveg L =
       truediv (sum_axis0 (length (d3_y scl)) (length (d3_x scl))
                  (and3 (eq_scalar (d3_values scl) (legend ''not_vegetated'')) (ne_scalar (d3_values scl) 0)))
               (l_obs L)"
  using assms unfolding preprocess_scl_body_def bindE_Inr_iff Let_def
  apply (elim exE conjE)
  subgoal for scl post
    apply (rule that [of scl post])
    apply (auto simp: ne_scalar_def shape3_map3 split: if_splits option.split)
    done
  done

subsection \<open>The mask of the body\<close>

lemma body_mask:
  assumes wf: "wf_stack s"
    and body: "preprocess_scl_body lib s mv er dr thr = Inr L"
  obtains scl post where
    "sel_band s ''SCL'' = Inr scl"
    "scl_morphology lib er dr (isin (d3_values scl) SCL_MASK_VALUES) = Inr post"
    "l_scl L = scl"
    "length (d3_values scl) = length (da_time s)"
    "rect3 (length (da_y s)) (length (da_x s)) (d3_values scl)"
    "length post = length (da_time s)"
    "rect3 (length (da_y s)) (length (da_x s)) post"
    "length (l_mask L) = length (da_time s)"
    "rect3 (length (da_y s)) (length (da_x s)) (l_mask L)"
    "\<forall>t<length (da_time s). \<forall>i<length (da_y s). \<forall>j<length (da_x s).
       l_mask L ! t ! i ! j =
         (\<not> post ! t ! i ! j \<or>
          (case thr of None \<Rightarrow> False | Some v \<Rightarrow> np_gt (l_invalid_after L ! i ! j) v))"
    "l_mask L = (case thr of None \<Rightarrow> invert3 post
                 | Some v \<Rightarrow> or_broadcast (invert3 post) (gt_scalar (l_invalid_after L) v))"
proof -
  from body obtain scl post where
    sel: "sel_band s ''SCL'' = Inr scl"
    and mo: "scl_morphology lib er dr (isin (d3_values scl) SCL_MASK_VALUES) = Inr post"
    and sh: "shape3 post = shape3 (d3_values scl)"
    and lscl: "l_scl L = scl"
    and obs: "l_obs L = astype_float32 (sum_axis0 (length (d3_y scl)) (length (d3_x scl))
                 (ne_scalar (d3_values scl) 0))"
    and ia: "l_invalid_after L =
       truediv (sum_axis0 (length (d3_y scl)) (length (d3_x scl))
                  (and3 post (ne_scalar (d3_values scl) 0))) (l_obs L)"
    and lm: "l_mask L = (case thr of None \<Rightarrow> invert3 post
                 | Some v \<Rightarrow> or_broadcast (invert3 post) (gt_scalar (l_invalid_after L) v))"
    by (rule body_Inr)
  let ?ny = "length (da_y s)" and ?nx = "length (da_x s)" and ?T = "length (da_time s)"
  have cy: "d3_y scl = da_y s" and cx: "d3_x scl = da_x s"
    using sel_band_Inr [OF sel] by simp_all
  have lv: "length (d3_values scl) = ?T" using sel_band_shape(1) [OF wf sel] .
  have rv: "rect3 ?ny ?nx (d3_values scl)" using sel_band_rect3 [OF wf sel] .
  have lp: "length post = ?T" using shape3_eqD(1) [OF sh] lv by simp
  have rp: "rect3 ?ny ?nx post" using shape3_rect3 [OF sh rv] .
  have ri: "rect3 ?ny ?nx (invert3 post)" unfolding invert3_def by (rule rect3_map3 [OF rp])
  have li: "length (invert3 post) = ?T" using lp by (simp add: invert3_def map3_def)
  have ias: "length (l_invalid_after L) = ?ny"
    "\<forall>i<?ny. length (l_invalid_after L ! i) = ?nx"
    unfolding ia obs cy cx by (simp_all add: ratio_shape)
  have inv_nth: "\<forall>t<?T. \<forall>i<?ny. \<forall>j<?nx. invert3 post ! t ! i ! j = (\<not> post ! t ! i ! j)"
    using rp lp by (simp add: invert3_def map3_nth)
  show thesis
  proof (cases thr)
    case None
    then have m: "l_mask L = invert3 post" using lm by simp
    show thesis
      by (rule that [OF sel mo lscl lv rv lp rp _ _ _ lm])
         (simp_all add: m li ri inv_nth None)
  next
    case (Some v)
    then have m: "l_mask L = or_broadcast (invert3 post) (gt_scalar (l_invalid_after L) v)"
      using lm by simp
    have gs: "length (gt_scalar (l_invalid_after L) v) = ?ny"
      "\<forall>i<?ny. length (gt_scalar (l_invalid_after L) v ! i) = ?nx"
      using ias by (simp_all add: gt_scalar_shape)
    have cell: "\<forall>t<?T. \<forall>i<?ny. \<forall>j<?nx.
       l_mask L ! t ! i ! j = (\<not> post ! t ! i ! j \<or> np_gt (l_invalid_after L ! i ! j) v)"
    proof (intro allI impI)
      fix t i j assume t: "t < ?T" and i: "i < ?ny" and j: "j < ?nx"
      have "l_mask L ! t ! i ! j =
             (invert3 post ! t ! i ! j \<or> gt_scalar (l_invalid_after L) v ! i ! j)"
        unfolding m using ri gs t i j li by (intro or_broadcast_nth) simp_all
      also have "gt_scalar (l_invalid_after L) v ! i ! j = np_gt (l_invalid_after L ! i ! j) v"
        using ias i j by (simp add: gt_scalar_nth)
      finally show "l_mask L ! t ! i ! j =
          (\<not> post ! t ! i ! j \<or> np_gt (l_invalid_after L ! i ! j) v)"
        using inv_nth t i j by simp
    qed
    have lm': "length (l_mask L) = ?T" unfolding m using li by (simp add: length_or_broadcast)
    have rm: "rect3 ?ny ?nx (l_mask L)" unfolding m
      using ri gs by (intro rect3_or_broadcast) simp_all
    show thesis
      by (rule that [OF sel mo lscl lv rv lp rp lm' rm _ lm]) (simp add: cell Some)
  qed
qed

lemma mask_output_Inr:
  "scl_mask_output lib s mv er dr thr = Inr m \<longleftrightarrow>
     (\<exists>L. preprocess_scl_body lib s mv er dr thr = Inr L \<and> m = mask_assemble (l_scl L) (l_mask L))"
  by (auto simp: scl_mask_output_def bindE_Inr_iff)

subsection \<open>The auxiliary array is never built\<close>

lemma da_concatenate0_planes:
  "da_concatenate0 (map (asarray2 ny nx) ps) = Inr a \<Longrightarrow>
     nd_shape a = [length ps * ny, nx]"
  by (cases ps)
     (auto simp: da_concatenate0_def asarray2_def comp_def sum_list_triv split: if_splits)

lemma xr_DataArray_two_dims:
  "length (nd_shape a) = 2 \<Longrightarrow>
     xr_DataArray a [''time'', ''band'', ''y'', ''x''] time band y x attrs = Inl ValueError"
  by (simp add: xr_DataArray_def)

lemma preprocess_scl_never_returns:
  "preprocess_scl lib s mv er dr thr \<noteq> Inr r"
proof (cases "preprocess_scl_body lib s mv er dr thr")
  case (Inl e)
  then show ?thesis by (simp add: preprocess_scl_def bindE_def)
next
  case (Inr L)
  let ?m = "mask_assemble (l_scl L) (l_mask L)"
  let ?cat = "da_concatenate0 (map (asarray2 (length (da_y ?m)) (length (da_x ?m)))
                [l_obs L, l_invalid_before L, l_invalid_after L, l_cover_snow L,
                 l_cover_water L, l_cover_veg L, l_cover_notveg L])"
  show ?thesis
  proof (cases ?cat)
    case (Inl e)
    then show ?thesis using \<open>preprocess_scl_body lib s mv er dr thr = Inr L\<close>
      by (simp add: preprocess_scl_def bindE_def Let_def)
  next
    case cat: (Inr a)
    from da_concatenate0_planes [OF cat] have two: "length (nd_shape a) = 2" by simp
    show ?thesis
      using \<open>preprocess_scl_body lib s mv er dr thr = Inr L\<close> cat
        xr_DataArray_two_dims [OF two]
      by (simp add: preprocess_scl_def bindE_def Let_def split: list.splits)
  qed
qed

subsection \<open>Concrete runs\<close>

lemma wf_example_stack: "wf_stack example_stack"
  by (simp add: wf_stack_def example_stack_def)

lemma wf_nodata_stack: "wf_stack nodata_stack"
  by (simp add: wf_stack_def nodata_stack_def)

lemma body_example:
  "preprocess_scl_body ndimage example_stack None (Some 0) (Some 0) (Some (Fin (1 / 2))) =
     Inr example_locals"
  by code_simp

lemma body_nodata:
  "preprocess_scl_body ndimage nodata_stack None (Some 0) (Some 0) None = Inr nodata_locals"
  by code_simp

lemma sel_nodata: "sel_band nodata_stack ''SCL'' = Inr nodata_scl"
  by code_simp


subsection \<open>The threshold on the invalid ratio\<close>

text \<open>
  C1, as stated, fails. On \<open>example_stack\<close> with both radii 0 and a threshold of one
  half, the invalid ratio after morphology at pixel (0, 0) is two thirds, above the
  threshold, and the mask is True, not False, at that pixel at every timestep.
\<close>

theorem chronic_pixels_forced_false_counterexample:
  "map_sum id l_invalid_after
     (preprocess_scl_body ndimage example_stack None (Some 0) (Some 0) (Some (Fin (1 / 2)))) =
     Inr [[Fin (2 / 3), Fin 0], [Fin 0, Fin 0]] \<and>
   np_gt (Fin (2 / 3)) (Fin (1 / 2)) \<and>
   map_sum id da_values
     (scl_mask_output ndimage example_stack None (Some 0) (Some 0) (Some (Fin (1 / 2)))) =
     Inr [[[[True, True], [True, True]]], [[[True, True], [True, True]]],
          [[[True, True], [True, True]]]]"
  by code_simp

text \<open>
  C1, amended. For every well-formed stack and every pixel whose invalid ratio after
  morphology exceeds the configured \<open>max_invalid_ratio\<close>, the validity mask built by
  lines 120 to 161 is True (valid) at that pixel at every timestep, also where the mask
  after morphology marks the pixel invalid. This is what the docstring of the parameter
  says: mask values are set to True.
\<close>

theorem chronic_pixels_forced_valid:
  assumes wf: "wf_stack s"
    and body: "preprocess_scl_body lib s mv er dr (Some thr) = Inr L"
    and out: "scl_mask_output lib s mv er dr (Some thr) = Inr m"
    and i: "i < length (da_y s)" and j: "j < length (da_x s)"
    and chronic: "np_gt (l_invalid_after L ! i ! j) thr"
    and t: "t < length (da_time s)"
  shows "da_values m ! t ! 0 ! i ! j = True"
proof (rule body_mask [OF wf body])
  fix scl post
  assume len: "length (l_mask L) = length (da_time s)"
    and cell: "\<forall>t<length (da_time s). \<forall>i<length (da_y s). \<forall>j<length (da_x s).
       l_mask L ! t ! i ! j =
         (\<not> post ! t ! i ! j \<or>
          (case Some thr of None \<Rightarrow> False | Some v \<Rightarrow> np_gt (l_invalid_after L ! i ! j) v))"
  from out body have m: "m = mask_assemble (l_scl L) (l_mask L)"
    by (simp add: scl_mask_output_def bindE_def)
  from cell t i j have "l_mask L ! t ! i ! j =
         (\<not> post ! t ! i ! j \<or> np_gt (l_invalid_after L ! i ! j) thr)" by simp
  with chronic have "l_mask L ! t ! i ! j" by simp
  moreover have "da_values m ! t ! 0 = l_mask L ! t"
    using t len by (simp add: m mask_assemble_def)
  ultimately show ?thesis by simp
qed

theorem chronic_pixels_forced_valid_witness:
  "wf_stack example_stack \<and>
   preprocess_scl_body ndimage example_stack None (Some 0) (Some 0) (Some (Fin (1 / 2))) =
     Inr example_locals \<and>
   np_gt (l_invalid_after example_locals ! 0 ! 0) (Fin (1 / 2)) \<and>
   d3_values (l_scl example_locals) ! 0 ! 0 ! 0 = 9 \<and>
   da_values (mask_assemble (l_scl example_locals) (l_mask example_locals)) ! 0 ! 0 ! 0 ! 0 = True"
proof -
  have out: "scl_mask_output ndimage example_stack None (Some 0) (Some 0) (Some (Fin (1 / 2))) =
      Inr (mask_assemble (l_scl example_locals) (l_mask example_locals))"
    by (simp add: scl_mask_output_def bindE_def body_example)
  have i: "0 < length (da_y example_stack)" and j: "0 < length (da_x example_stack)"
    and t: "0 < length (da_time example_stack)"
    by (simp_all add: example_stack_def)
  have chronic: "np_gt (l_invalid_after example_locals ! 0 ! 0) (Fin (1 / 2))"
    by (simp add: example_locals_def)
  have code: "d3_values (l_scl example_locals) ! 0 ! 0 ! 0 = 9"
    by (simp add: example_locals_def)
  from chronic_pixels_forced_valid [OF wf_example_stack body_example out i j chronic t]
  show ?thesis using wf_example_stack body_example chronic code by simp
qed

subsection \<open>Shape and polarity of the validity mask\<close>

lemma mask_output_example:
  "scl_mask_output ndimage example_stack None (Some 0) (Some 0) None = Inr (mask example_container)"
  by code_simp

text \<open>
  C5. For every well-formed stack on which lines 120 to 161 produce the validity mask, the
  mask is a boolean array with the time, y and x coordinates and the attributes of the
  input, one band named SCL, and shape (time, 1, y, x); and when no
  \<open>max_invalid_ratio\<close> is given its plane at each timestep is the logical NOT of the
  plane at the same timestep of the invalid mask after morphology.
\<close>

theorem mask_output_shape_and_polarity:
  assumes wf: "wf_stack s"
    and out: "scl_mask_output lib s mv er dr thr = Inr m"
  shows "da_time m = da_time s \<and> da_band m = [''SCL''] \<and> da_y m = da_y s \<and>
         da_x m = da_x s \<and> da_attrs m = da_attrs s \<and>
         length (da_values m) = length (da_time s) \<and>
         (\<forall>t<length (da_time s).
            length (da_values m ! t) = 1 \<and>
            length (da_values m ! t ! 0) = length (da_y s) \<and>
            (\<forall>i<length (da_y s). length (da_values m ! t ! 0 ! i) = length (da_x s))) \<and>
         (thr = None \<longrightarrow>
            (\<exists>scl post.
               sel_band s ''SCL'' = Inr scl \<and>
               scl_morphology lib er dr (isin (d3_values scl) SCL_MASK_VALUES) = Inr post \<and>
               length post = length (da_time s) \<and>
               (\<forall>t<length (da_time s). da_values m ! t = [map (map Not) (post ! t)])))"
proof -
  from out obtain L where body: "preprocess_scl_body lib s mv er dr thr = Inr L"
    and m: "m = mask_assemble (l_scl L) (l_mask L)"
    unfolding mask_output_Inr by blast
  show ?thesis
  proof (rule body_mask [OF wf body])
    fix scl post
    assume sel: "sel_band s ''SCL'' = Inr scl"
      and mo: "scl_morphology lib er dr (isin (d3_values scl) SCL_MASK_VALUES) = Inr post"
      and lscl: "l_scl L = scl"
      and lp: "length post = length (da_time s)"
      and len: "length (l_mask L) = length (da_time s)"
      and rect: "rect3 (length (da_y s)) (length (da_x s)) (l_mask L)"
      and lm: "l_mask L = (case thr of None \<Rightarrow> invert3 post
                 | Some v \<Rightarrow> or_broadcast (invert3 post) (gt_scalar (l_invalid_after L) v))"
    note S = sel_band_Inr [OF sel]
    have coords: "da_time m = da_time s \<and> da_band m = [''SCL''] \<and> da_y m = da_y s \<and>
         da_x m = da_x s \<and> da_attrs m = da_attrs s"
      using S by (simp add: m lscl mask_assemble_def)
    have vals: "da_values m = map (\<lambda>p. [p]) (l_mask L)"
      by (simp add: m mask_assemble_def)
    have lv: "length (da_values m) = length (da_time s)" using vals len by simp
    have nth: "\<forall>t<length (da_time s). da_values m ! t = [l_mask L ! t]"
      using vals len by simp
    have shape: "\<forall>t<length (da_time s).
            length (da_values m ! t) = 1 \<and>
            length (da_values m ! t ! 0) = length (da_y s) \<and>
            (\<forall>i<length (da_y s). length (da_values m ! t ! 0 ! i) = length (da_x s))"
      using nth rect len by (simp add: rect3_def)
    have pol: "thr = None \<longrightarrow>
            (\<exists>scl post.
               sel_band s ''SCL'' = Inr scl \<and>
               scl_morphology lib er dr (isin (d3_values scl) SCL_MASK_VALUES) = Inr post \<and>
               length post = length (da_time s) \<and>
               (\<forall>t<length (da_time s). da_values m ! t = [map (map Not) (post ! t)]))"
    proof
      assume none: "thr = None"
      then have "l_mask L = invert3 post" using lm by simp
      then have "\<forall>t<length (da_time s). da_values m ! t = [map (map Not) (post ! t)]"
        using nth lp by (simp add: invert3_def map3_def)
      with sel mo lp show "\<exists>scl post.
               sel_band s ''SCL'' = Inr scl \<and>
               scl_morphology lib er dr (isin (d3_values scl) SCL_MASK_VALUES) = Inr post \<and>
               length post = length (da_time s) \<and>
               (\<forall>t<length (da_time s). da_values m ! t = [map (map Not) (post ! t)])"
        by blast
    qed
    from coords lv shape pol show ?thesis by simp
  qed
qed


theorem mask_output_shape_and_polarity_witness:
  "wf_stack example_stack \<and>
   scl_mask_output ndimage example_stack None (Some 0) (Some 0) None =
     Inr (mask example_container) \<and>
   da_time (mask example_container) = da_time example_stack \<and>
   da_band (mask example_container) = [''SCL''] \<and>
   length (da_values (mask example_container)) = length (da_time example_stack) \<and>
   length (da_values (mask example_container) ! 0) = 1 \<and>
   (\<exists>scl post.
      sel_band example_stack ''SCL'' = Inr scl \<and>
      scl_morphology ndimage (Some 0) (Some 0) (isin (d3_values scl) SCL_MASK_VALUES) = Inr post \<and>
      da_values (mask example_container) ! 0 = [map (map Not) (post ! 0)])"
proof -
  note r = mask_output_shape_and_polarity [OF wf_example_stack mask_output_example]
  have t: "0 < length (da_time example_stack)" by (simp add: example_stack_def)
  from r have c1: "da_time (mask example_container) = da_time example_stack"
    and c2: "da_band (mask example_container) = [''SCL'']"
    and c3: "length (da_values (mask example_container)) = length (da_time example_stack)"
    by simp_all
  from r have "\<forall>t<length (da_time example_stack).
      length (da_values (mask example_container) ! t) = 1 \<and>
      length (da_values (mask example_container) ! t ! 0) = length (da_y example_stack) \<and>
      (\<forall>i<length (da_y example_stack).
         length (da_values (mask example_container) ! t ! 0 ! i) = length (da_x example_stack))"
    by simp
  with t have c4: "length (da_values (mask example_container) ! 0) = 1" by blast
  from r obtain scl post where
    sel: "sel_band example_stack ''SCL'' = Inr scl"
    and mo: "scl_morphology ndimage (Some 0) (Some 0) (isin (d3_values scl) SCL_MASK_VALUES) =
               Inr post"
    and cells: "\<forall>t<length (da_time example_stack).
                  da_values (mask example_container) ! t = [map (map Not) (post ! t)]"
    by auto
  from cells t have "da_values (mask example_container) ! 0 = [map (map Not) (post ! 0)]"
    by blast
  with sel mo have "\<exists>scl post.
      sel_band example_stack ''SCL'' = Inr scl \<and>
      scl_morphology ndimage (Some 0) (Some 0) (isin (d3_values scl) SCL_MASK_VALUES) = Inr post \<and>
      da_values (mask example_container) ! 0 = [map (map Not) (post ! 0)]"
    by blast
  then show ?thesis using wf_example_stack mask_output_example c1 c2 c3 c4 by simp
qed

subsection \<open>The statistics planes\<close>

lemma length_map3: "length (map3 f a) = length a"
  by (simp add: map3_def)

lemma count_map3:
  assumes "rect3 ny nx a" "i < ny" "j < nx"
  shows "length (filter (\<lambda>p. p ! i ! j) (map3 f a)) = count_timesteps f a i j"
proof -
  have "\<forall>t<length (map3 f a). map3 f a ! t ! i ! j = f (a ! t ! i ! j)"
    using assms by (simp add: length_map3 map3_nth)
  from count_pixel [OF this] show ?thesis
    by (simp add: count_timesteps_def length_map3)
qed

lemma count_and3:
  assumes ra: "rect3 ny nx a" and rb: "rect3 ny nx b" and len: "length a = length b"
    and i: "i < ny" and j: "j < nx"
  shows "length (filter (\<lambda>p. p ! i ! j) (and3 a b)) =
         length (filter (\<lambda>t. a ! t ! i ! j \<and> b ! t ! i ! j) [0..<length b])"
proof -
  have "\<forall>t<length (and3 a b). and3 a b ! t ! i ! j = (a ! t ! i ! j \<and> b ! t ! i ! j)"
    using and3_nth [OF ra rb len _ i j] len by (simp add: length_and3)
  from count_pixel [OF this] show ?thesis using len by (simp add: length_and3)
qed

lemma count_and3_map3:
  assumes r: "rect3 ny nx a" and i: "i < ny" and j: "j < nx"
  shows "length (filter (\<lambda>p. p ! i ! j) (and3 (map3 f a) (map3 g a))) =
         count_timesteps (\<lambda>c. f c \<and> g c) a i j"
proof -
  have "length (filter (\<lambda>p. p ! i ! j) (and3 (map3 f a) (map3 g a))) =
        length (filter (\<lambda>t. map3 f a ! t ! i ! j \<and> map3 g a ! t ! i ! j) [0..<length (map3 g a)])"
    using rect3_map3 [OF r] i j by (intro count_and3) (simp_all add: length_map3)
  also have "filter (\<lambda>t. map3 f a ! t ! i ! j \<and> map3 g a ! t ! i ! j) [0..<length (map3 g a)] =
             filter (\<lambda>t. f (a ! t ! i ! j) \<and> g (a ! t ! i ! j)) [0..<length a]"
    using r i j by (intro filter_cong) (simp_all add: length_map3 map3_nth)
  finally show ?thesis by (simp add: count_timesteps_def)
qed

lemma count_timesteps_zero:
  assumes "\<forall>t<length a. a ! t ! i ! j = 0" and "\<And>c. P c \<Longrightarrow> c \<noteq> 0"
  shows "count_timesteps P a i j = 0"
  using assms by (auto simp: count_timesteps_def filter_empty_conv)

lemma legend_values:
  "legend ''snow'' = 11" "legend ''water'' = 6" "legend ''vegetation'' = 4"
  "legend ''not_vegetated'' = 5"
  by (simp_all add: legend_def SCL_LEGEND_def)

lemma set_SCL_MASK_VALUES: "set SCL_MASK_VALUES = {1, 3, 8, 9, 10, 11}"
  by (simp add: SCL_MASK_VALUES_def)

lemma np_div_counts:
  "(n = 0 \<Longrightarrow> c = 0) \<Longrightarrow>
     np_div c (Fin (of_nat n)) = (if n = 0 then NaN else Fin (of_nat c / of_nat n))"
  by simp

lemma count_timesteps_observed_zero:
  assumes "count_timesteps (\<lambda>c. c \<noteq> 0) a i j = 0"
  shows "count_timesteps (\<lambda>c. P c \<and> c \<noteq> 0) a i j = 0"
  using assms by (simp add: count_timesteps_def filter_empty_conv)

lemma scl_statistics_cells:
  assumes rv: "rect3 (length (d3_y scl)) (length (d3_x scl)) (d3_values scl)"
    and i: "i < length (d3_y scl)" and j: "j < length (d3_x scl)"
  shows "st_obs (scl_statistics scl) ! i ! j =
           Fin (of_nat (count_timesteps (\<lambda>c. c \<noteq> 0) (d3_values scl) i j))"
    and "st_invalid_before (scl_statistics scl) ! i ! j =
           np_div (count_timesteps (\<lambda>c. c \<in> {1, 3, 8, 9, 10, 11} \<and> c \<noteq> 0) (d3_values scl) i j)
             (Fin (of_nat (count_timesteps (\<lambda>c. c \<noteq> 0) (d3_values scl) i j)))"
    and "st_cover_snow (scl_statistics scl) ! i ! j =
           np_div (count_timesteps (\<lambda>c. c = 11 \<and> c \<noteq> 0) (d3_values scl) i j)
             (Fin (of_nat (count_timesteps (\<lambda>c. c \<noteq> 0) (d3_values scl) i j)))"
    and "st_cover_water (scl_statistics scl) ! i ! j =
           np_div (count_timesteps (\<lambda>c. c = 6 \<and> c \<noteq> 0) (d3_values scl) i j)
             (Fin (of_nat (count_timesteps (\<lambda>c. c \<noteq> 0) (d3_values scl) i j)))"
    and "st_cover_veg (scl_statistics scl) ! i ! j =
           np_div (count_timesteps (\<lambda>c. c = 4 \<and> c \<noteq> 0) (d3_values scl) i j)
             (Fin (of_nat (count_timesteps (\<lambda>c. c \<noteq> 0) (d3_values scl) i j)))"
    and "st_cover_notveg (scl_statistics scl) ! i ! j =
           np_div (count_timesteps (\<lambda>c. c = 5 \<and> c \<noteq> 0) (d3_values scl) i j)
             (Fin (of_nat (count_timesteps (\<lambda>c. c \<noteq> 0) (d3_values scl) i j)))"
proof -
  let ?v = "d3_values scl" and ?ny = "length (d3_y scl)" and ?nx = "length (d3_x scl)"
  have obs: "length (filter (\<lambda>p. p ! i ! j) (ne_scalar ?v 0)) =
             count_timesteps (\<lambda>c. c \<noteq> 0) ?v i j"
    unfolding ne_scalar_def by (rule count_map3 [OF rv i j])
  have ratio: "\<And>a. truediv (sum_axis0 ?ny ?nx a)
                   (astype_float32 (sum_axis0 ?ny ?nx (ne_scalar ?v 0))) ! i ! j =
      np_div (length (filter (\<lambda>p. p ! i ! j) a))
        (Fin (of_nat (count_timesteps (\<lambda>c. c \<noteq> 0) ?v i j)))"
    using i j by (simp add: ratio_nth obs)
  have cover: "\<And>k. length (filter (\<lambda>p. p ! i ! j) (and3 (eq_scalar ?v k) (ne_scalar ?v 0))) =
      count_timesteps (\<lambda>c. c = k \<and> c \<noteq> 0) ?v i j"
    unfolding eq_scalar_def ne_scalar_def by (rule count_and3_map3 [OF rv i j])
  have inv: "length (filter (\<lambda>p. p ! i ! j) (and3 (isin ?v SCL_MASK_VALUES) (ne_scalar ?v 0))) =
      count_timesteps (\<lambda>c. c \<in> {1, 3, 8, 9, 10, 11} \<and> c \<noteq> 0) ?v i j"
    unfolding isin_def ne_scalar_def set_SCL_MASK_VALUES by (rule count_and3_map3 [OF rv i j])
  show "st_obs (scl_statistics scl) ! i ! j =
           Fin (of_nat (count_timesteps (\<lambda>c. c \<noteq> 0) ?v i j))"
    using i j
    by (simp add: scl_statistics_def Let_def astype_float32_nth sum_axis0_shape sum_axis0_nth obs)
  show "st_invalid_before (scl_statistics scl) ! i ! j =
           np_div (count_timesteps (\<lambda>c. c \<in> {1, 3, 8, 9, 10, 11} \<and> c \<noteq> 0) ?v i j)
             (Fin (of_nat (count_timesteps (\<lambda>c. c \<noteq> 0) ?v i j)))"
    by (simp add: scl_statistics_def Let_def ratio inv)
  show "st_cover_snow (scl_statistics scl) ! i ! j =
           np_div (count_timesteps (\<lambda>c. c = 11 \<and> c \<noteq> 0) ?v i j)
             (Fin (of_nat (count_timesteps (\<lambda>c. c \<noteq> 0) ?v i j)))"
    by (simp add: scl_statistics_def Let_def ratio cover legend_values)
  show "st_cover_water (scl_statistics scl) ! i ! j =
           np_div (count_timesteps (\<lambda>c. c = 6 \<and> c \<noteq> 0) ?v i j)
             (Fin (of_nat (count_timesteps (\<lambda>c. c \<noteq> 0) ?v i j)))"
    by (simp add: scl_statistics_def Let_def ratio cover legend_values)
  show "st_cover_veg (scl_statistics scl) ! i ! j =
           np_div (count_timesteps (\<lambda>c. c = 4 \<and> c \<noteq> 0) ?v i j)
             (Fin (of_nat (count_timesteps (\<lambda>c. c \<noteq> 0) ?v i j)))"
    by (simp add: scl_statistics_def Let_def ratio cover legend_values)
  show "st_cover_notveg (scl_statistics scl) ! i ! j =
           np_div (count_timesteps (\<lambda>c. c = 5 \<and> c \<noteq> 0) ?v i j)
             (Fin (of_nat (count_timesteps (\<lambda>c. c \<noteq> 0) ?v i j)))"
    by (simp add: scl_statistics_def Let_def ratio cover legend_values)
qed

lemma body_statistics:
  assumes body: "preprocess_scl_body lib s mv er dr thr = Inr L"
    and sel: "sel_band s ''SCL'' = Inr scl"
  shows "l_obs L = st_obs (scl_statistics scl) \<and>
         l_invalid_before L = st_invalid_before (scl_statistics scl) \<and>
         l_cover_snow L = st_cover_snow (scl_statistics scl) \<and>
         l_cover_water L = st_cover_water (scl_statistics scl) \<and>
         l_cover_veg L = st_cover_veg (scl_statistics scl) \<and>
         l_cover_notveg L = st_cover_notveg (scl_statistics scl)"
proof (rule body_Inr [OF body])
  fix scl' post
  assume sel': "sel_band s ''SCL'' = Inr scl'"
    and obs: "l_obs L = astype_float32 (sum_axis0 (length (d3_y scl')) (length (d3_x scl'))
               (ne_scalar (d3_values scl') 0))"
    and ib: "l_invalid_before L =
       truediv (sum_axis0 (length (d3_y scl')) (length (d3_x scl'))
                (and3 (isin (d3_values scl') SCL_MASK_VALUES) (ne_scalar (d3_values scl') 0)))
             (l_obs L)"
    and sn: "l_cover_snow L =
       truediv (sum_axis0 (length (d3_y scl')) (length (d3_x scl'))
                (and3 (eq_scalar (d3_values scl') (legend ''snow'')) (ne_scalar (d3_values scl') 0)))
             (l_obs L)"
    and wa: "l_cover_water L =
       truediv (sum_axis0 (length (d3_y scl')) (length (d3_x scl'))
                (and3 (eq_scalar (d3_values scl') (legend ''water'')) (ne_scalar (d3_values scl') 0)))
             (l_obs L)"
    and ve: "l_cover_veg L =
       truediv (sum_axis0 (length (d3_y scl')) (length (d3_x scl'))
                (and3 (eq_scalar (d3_values scl') (legend ''vegetation'')) (ne_scalar (d3_values scl') 0)))
             (l_obs L)"
    and nv: "l_cover_notveg L =
       truediv (sum_axis0 (length (d3_y scl')) (length (d3_x scl'))
                (and3 (eq_scalar (d3_values scl') (legend ''not_vegetated'')) (ne_scalar (d3_values scl') 0)))
             (l_obs L)"
  from sel sel' have same: "scl' = scl" by simp
  show ?thesis
    unfolding ib sn wa ve nv unfolding obs same
    by (simp add: scl_statistics_def Let_def)
qed

lemma invalid_after_unobserved:
  assumes wf: "wf_stack s"
    and sel: "sel_band s ''SCL'' = Inr scl"
    and body: "preprocess_scl_body lib s mv er dr thr = Inr L"
    and i: "i < length (da_y s)" and j: "j < length (da_x s)"
    and z: "\<forall>t<length (d3_values scl). d3_values scl ! t ! i ! j = 0"
  shows "l_invalid_after L ! i ! j = NaN"
proof (rule body_Inr [OF body])
  fix scl' post
  let ?v = "d3_values scl"
  let ?ny = "length (da_y s)" and ?nx = "length (da_x s)"
  assume sel': "sel_band s ''SCL'' = Inr scl'"
    and sh: "shape3 post = shape3 (d3_values scl')"
    and obs: "l_obs L = astype_float32 (sum_axis0 (length (d3_y scl')) (length (d3_x scl'))
                 (ne_scalar (d3_values scl') 0))"
    and ia: "l_invalid_after L =
       truediv (sum_axis0 (length (d3_y scl')) (length (d3_x scl'))
                  (and3 post (ne_scalar (d3_values scl') 0))) (l_obs L)"
  from sel sel' have same: "scl' = scl" by simp
  have cy: "length (d3_y scl) = ?ny" and cx: "length (d3_x scl) = ?nx"
    using sel_band_Inr [OF sel] by simp_all
  have rv: "rect3 ?ny ?nx ?v" using sel_band_rect3 [OF wf sel] .
  have rp: "rect3 ?ny ?nx post" using shape3_rect3 [OF sh [unfolded same] rv] .
  have lp: "length post = length ?v" using shape3_eqD(1) [OF sh [unfolded same]] .
  have ro: "rect3 ?ny ?nx (ne_scalar ?v 0)" unfolding ne_scalar_def by (rule rect3_map3 [OF rv])
  have lo: "length (ne_scalar ?v 0) = length ?v" by (simp add: ne_scalar_def length_map3)
  have n0: "length (filter (\<lambda>p. p ! i ! j) (ne_scalar ?v 0)) = 0"
    unfolding ne_scalar_def count_map3 [OF rv i j]
    by (rule count_timesteps_zero [OF z]) simp
  have "length (filter (\<lambda>p. p ! i ! j) (and3 post (ne_scalar ?v 0))) =
        length (filter (\<lambda>t. post ! t ! i ! j \<and> ne_scalar ?v 0 ! t ! i ! j)
                  [0..<length (ne_scalar ?v 0)])"
    using rp ro lp lo i j by (intro count_and3) simp_all
  also have "filter (\<lambda>t. post ! t ! i ! j \<and> ne_scalar ?v 0 ! t ! i ! j)
                  [0..<length (ne_scalar ?v 0)] =
             filter (\<lambda>t. post ! t ! i ! j \<and> ?v ! t ! i ! j \<noteq> 0) [0..<length ?v]"
    using rv i j lo by (intro filter_cong) (simp_all add: ne_scalar_def map3_nth)
  also have "\<dots> = []" using z by (simp add: filter_empty_conv)
  finally have c0: "length (filter (\<lambda>p. p ! i ! j) (and3 post (ne_scalar ?v 0))) = 0" by simp
  show ?thesis
    unfolding ia obs same cy cx using i j by (simp add: ratio_nth c0 n0)
qed

text \<open>
  C6. For every well-formed stack with an SCL band, whatever the radii and the
  threshold, the planes that lines 129 to 138 compute hold at each pixel: \<open>l2a_obs\<close>,
  the number \<open>n\<close> of timesteps whose code is not 0; the invalid ratio before morphology,
  the number of timesteps whose code is a mask value and not 0, divided by \<open>n\<close>; the
  snow, water, vegetation and not-vegetated ratios, the same with the codes 11, 6, 4 and
  5. Each ratio is the quotient of the two counts when \<open>n\<close> is positive and NaN when
  \<open>n\<close> is 0; no division raises. At a pixel whose code is 0 at every timestep
  \<open>l2a_obs\<close> is 0 and these five ratios are NaN. Whenever lines 120 to 156 run
  through, their local variables are these planes, and the invalid ratio after
  morphology is NaN at such a pixel too.
\<close>

theorem statistics_per_pixel:
  assumes wf: "wf_stack s"
    and sel: "sel_band s ''SCL'' = Inr scl"
    and i: "i < length (da_y s)" and j: "j < length (da_x s)"
  shows "let v = d3_values scl;
             n = count_timesteps (\<lambda>c. c \<noteq> 0) v i j;
             ratio = (\<lambda>k. if n = 0 then NaN else Fin (of_nat k / of_nat n));
             st = scl_statistics scl
         in st_obs st ! i ! j = Fin (of_nat n) \<and>
            st_invalid_before st ! i ! j =
              ratio (count_timesteps (\<lambda>c. c \<in> {1, 3, 8, 9, 10, 11} \<and> c \<noteq> 0) v i j) \<and>
            st_cover_snow st ! i ! j = ratio (count_timesteps (\<lambda>c. c = 11 \<and> c \<noteq> 0) v i j) \<and>
            st_cover_water st ! i ! j = ratio (count_timesteps (\<lambda>c. c = 6 \<and> c \<noteq> 0) v i j) \<and>
            st_cover_veg st ! i ! j = ratio (count_timesteps (\<lambda>c. c = 4 \<and> c \<noteq> 0) v i j) \<and>
            st_cover_notveg st ! i ! j = ratio (count_timesteps (\<lambda>c. c = 5 \<and> c \<noteq> 0) v i j) \<and>
            ((\<forall>t<length v. v ! t ! i ! j = 0) \<longrightarrow>
               st_obs st ! i ! j = Fin 0 \<and> st_invalid_before st ! i ! j = NaN \<and>
               st_cover_snow st ! i ! j = NaN \<and> st_cover_water st ! i ! j = NaN \<and>
               st_cover_veg st ! i ! j = NaN \<and> st_cover_notveg st ! i ! j = NaN) \<and>
            (\<forall>L. preprocess_scl_body lib s mv er dr thr = Inr L \<longrightarrow>
               l_obs L = st_obs st \<and> l_invalid_before L = st_invalid_before st \<and>
               l_cover_snow L = st_cover_snow st \<and> l_cover_water L = st_cover_water st \<and>
               l_cover_veg L = st_cover_veg st \<and> l_cover_notveg L = st_cover_notveg st \<and>
               ((\<forall>t<length v. v ! t ! i ! j = 0) \<longrightarrow> l_invalid_after L ! i ! j = NaN))"
proof -
  let ?v = "d3_values scl" and ?st = "scl_statistics scl"
  let ?n = "count_timesteps (\<lambda>c. c \<noteq> 0) ?v i j"
  let ?ratio = "\<lambda>k. if ?n = 0 then NaN else Fin (of_nat k / of_nat ?n)"
  have cy: "length (d3_y scl) = length (da_y s)" and cx: "length (d3_x scl) = length (da_x s)"
    using sel_band_Inr [OF sel] by simp_all
  have rv: "rect3 (length (d3_y scl)) (length (d3_x scl)) ?v"
    unfolding cy cx by (rule sel_band_rect3 [OF wf sel])
  have i': "i < length (d3_y scl)" and j': "j < length (d3_x scl)" using i j cy cx by simp_all
  note cells = scl_statistics_cells [OF rv i' j']
  have quot: "\<And>P. np_div (count_timesteps (\<lambda>c. P c \<and> c \<noteq> 0) ?v i j) (Fin (of_nat ?n)) =
                   ?ratio (count_timesteps (\<lambda>c. P c \<and> c \<noteq> 0) ?v i j)"
    by (rule np_div_counts) (rule count_timesteps_observed_zero)
  have o: "st_obs ?st ! i ! j = Fin (of_nat ?n)" by (rule cells(1))
  have b: "st_invalid_before ?st ! i ! j =
             ?ratio (count_timesteps (\<lambda>c. c \<in> {1, 3, 8, 9, 10, 11} \<and> c \<noteq> 0) ?v i j)"
    unfolding cells(2) by (rule quot)
  have c1: "st_cover_snow ?st ! i ! j = ?ratio (count_timesteps (\<lambda>c. c = 11 \<and> c \<noteq> 0) ?v i j)"
    unfolding cells(3) by (rule quot)
  have c2: "st_cover_water ?st ! i ! j = ?ratio (count_timesteps (\<lambda>c. c = 6 \<and> c \<noteq> 0) ?v i j)"
    unfolding cells(4) by (rule quot)
  have c3: "st_cover_veg ?st ! i ! j = ?ratio (count_timesteps (\<lambda>c. c = 4 \<and> c \<noteq> 0) ?v i j)"
    unfolding cells(5) by (rule quot)
  have c4: "st_cover_notveg ?st ! i ! j = ?ratio (count_timesteps (\<lambda>c. c = 5 \<and> c \<noteq> 0) ?v i j)"
    unfolding cells(6) by (rule quot)
  have nan: "(\<forall>t<length ?v. ?v ! t ! i ! j = 0) \<longrightarrow>
               st_obs ?st ! i ! j = Fin 0 \<and> st_invalid_before ?st ! i ! j = NaN \<and>
               st_cover_snow ?st ! i ! j = NaN \<and> st_cover_water ?st ! i ! j = NaN \<and>
               st_cover_veg ?st ! i ! j = NaN \<and> st_cover_notveg ?st ! i ! j = NaN"
  proof
    assume z: "\<forall>t<length ?v. ?v ! t ! i ! j = 0"
    have n0: "?n = 0" by (rule count_timesteps_zero [OF z]) simp
    show "st_obs ?st ! i ! j = Fin 0 \<and> st_invalid_before ?st ! i ! j = NaN \<and>
               st_cover_snow ?st ! i ! j = NaN \<and> st_cover_water ?st ! i ! j = NaN \<and>
               st_cover_veg ?st ! i ! j = NaN \<and> st_cover_notveg ?st ! i ! j = NaN"
      unfolding o b c1 c2 c3 c4 n0 by simp
  qed
  have ret: "\<forall>L. preprocess_scl_body lib s mv er dr thr = Inr L \<longrightarrow>
               l_obs L = st_obs ?st \<and> l_invalid_before L = st_invalid_before ?st \<and>
               l_cover_snow L = st_cover_snow ?st \<and> l_cover_water L = st_cover_water ?st \<and>
               l_cover_veg L = st_cover_veg ?st \<and> l_cover_notveg L = st_cover_notveg ?st \<and>
               ((\<forall>t<length ?v. ?v ! t ! i ! j = 0) \<longrightarrow> l_invalid_after L ! i ! j = NaN)"
  proof (intro allI impI)
    fix L assume body: "preprocess_scl_body lib s mv er dr thr = Inr L"
    have after: "(\<forall>t<length ?v. ?v ! t ! i ! j = 0) \<longrightarrow> l_invalid_after L ! i ! j = NaN"
      using invalid_after_unobserved [OF wf sel body i j] by blast
    from body_statistics [OF body sel] after
    show "l_obs L = st_obs ?st \<and> l_invalid_before L = st_invalid_before ?st \<and>
               l_cover_snow L = st_cover_snow ?st \<and> l_cover_water L = st_cover_water ?st \<and>
               l_cover_veg L = st_cover_veg ?st \<and> l_cover_notveg L = st_cover_notveg ?st \<and>
               ((\<forall>t<length ?v. ?v ! t ! i ! j = 0) \<longrightarrow> l_invalid_after L ! i ! j = NaN)"
      by simp
  qed
  from o b c1 c2 c3 c4 nan ret show ?thesis unfolding Let_def by blast
qed

lemma sel_example: "sel_band example_stack ''SCL'' = Inr (l_scl example_locals)"
  by code_simp

lemma example_counts:
  "count_timesteps (\<lambda>c. c \<noteq> 0) (d3_values (l_scl example_locals)) 0 0 = 3"
  "count_timesteps (\<lambda>c. c \<in> {1, 3, 8, 9, 10, 11} \<and> c \<noteq> 0)
     (d3_values (l_scl example_locals)) 0 0 = 2"
  "count_timesteps (\<lambda>c. c = 4 \<and> c \<noteq> 0) (d3_values (l_scl example_locals)) 0 0 = 1"
  by code_simp+


theorem statistics_per_pixel_witness:
  "wf_stack example_stack \<and>
   sel_band example_stack ''SCL'' = Inr (l_scl example_locals) \<and>
   st_obs (scl_statistics (l_scl example_locals)) ! 0 ! 0 = Fin 3 \<and>
   st_invalid_before (scl_statistics (l_scl example_locals)) ! 0 ! 0 = Fin (2 / 3) \<and>
   st_cover_veg (scl_statistics (l_scl example_locals)) ! 0 ! 0 = Fin (1 / 3) \<and>
   preprocess_scl_body ndimage example_stack None (Some 0) (Some 0) (Some (Fin (1 / 2))) =
     Inr example_locals \<and>
   l_invalid_before example_locals = st_invalid_before (scl_statistics (l_scl example_locals)) \<and>
   l_cover_veg example_locals = st_cover_veg (scl_statistics (l_scl example_locals)) \<and>
   wf_stack nodata_stack \<and>
   sel_band nodata_stack ''SCL'' = Inr nodata_scl \<and>
   d3_values nodata_scl ! 0 ! 0 ! 0 = 0 \<and> d3_values nodata_scl ! 1 ! 0 ! 0 = 0 \<and>
   length (d3_values nodata_scl) = 2 \<and>
   st_obs (scl_statistics nodata_scl) ! 0 ! 0 = Fin 0 \<and>
   st_invalid_before (scl_statistics nodata_scl) ! 0 ! 0 = NaN \<and>
   st_cover_snow (scl_statistics nodata_scl) ! 0 ! 0 = NaN \<and>
   st_cover_water (scl_statistics nodata_scl) ! 0 ! 0 = NaN \<and>
   st_cover_veg (scl_statistics nodata_scl) ! 0 ! 0 = NaN \<and>
   st_cover_notveg (scl_statistics nodata_scl) ! 0 ! 0 = NaN \<and>
   preprocess_scl_body ndimage nodata_stack None (Some 0) (Some 0) None = Inr nodata_locals \<and>
   l_invalid_after nodata_locals ! 0 ! 0 = NaN"
proof -
  have ie: "0 < length (da_y example_stack)" and je: "0 < length (da_x example_stack)"
    by (simp_all add: example_stack_def)
  note A = statistics_per_pixel [OF wf_example_stack sel_example ie je,
      where lib = ndimage and mv = None and er = "Some 0" and dr = "Some 0"
        and thr = "Some (Fin (1 / 2))", unfolded Let_def example_counts]
  from A have a1: "st_obs (scl_statistics (l_scl example_locals)) ! 0 ! 0 = Fin 3"
    and a2: "st_invalid_before (scl_statistics (l_scl example_locals)) ! 0 ! 0 = Fin (2 / 3)"
    and a3: "st_cover_veg (scl_statistics (l_scl example_locals)) ! 0 ! 0 = Fin (1 / 3)"
    by simp_all
  from A have "\<forall>L. preprocess_scl_body ndimage example_stack None (Some 0) (Some 0)
                     (Some (Fin (1 / 2))) = Inr L \<longrightarrow>
      l_invalid_before L = st_invalid_before (scl_statistics (l_scl example_locals)) \<and>
      l_cover_veg L = st_cover_veg (scl_statistics (l_scl example_locals))"
    by blast
  with body_example
  have a4: "l_invalid_before example_locals =
              st_invalid_before (scl_statistics (l_scl example_locals))"
    and a5: "l_cover_veg example_locals = st_cover_veg (scl_statistics (l_scl example_locals))"
    by blast+
  have i: "0 < length (da_y nodata_stack)" and j: "0 < length (da_x nodata_stack)"
    by (simp_all add: nodata_stack_def)
  have len: "length (d3_values nodata_scl) = 2" by (simp add: nodata_scl_def)
  have c0: "d3_values nodata_scl ! 0 ! 0 ! 0 = 0" and c1: "d3_values nodata_scl ! 1 ! 0 ! 0 = 0"
    by (simp_all add: nodata_scl_def)
  have allz: "\<forall>t<length (d3_values nodata_scl). d3_values nodata_scl ! t ! 0 ! 0 = 0"
  proof (intro allI impI)
    fix t assume "t < length (d3_values nodata_scl)"
    then have "t = 0 \<or> t = 1" using len by auto
    then show "d3_values nodata_scl ! t ! 0 ! 0 = 0" using c0 c1 by auto
  qed
  note B = statistics_per_pixel [OF wf_nodata_stack sel_nodata i j,
      where lib = ndimage and mv = None and er = "Some 0" and dr = "Some 0" and thr = None,
      unfolded Let_def]
  from B allz have b1: "st_obs (scl_statistics nodata_scl) ! 0 ! 0 = Fin 0 \<and>
      st_invalid_before (scl_statistics nodata_scl) ! 0 ! 0 = NaN \<and>
      st_cover_snow (scl_statistics nodata_scl) ! 0 ! 0 = NaN \<and>
      st_cover_water (scl_statistics nodata_scl) ! 0 ! 0 = NaN \<and>
      st_cover_veg (scl_statistics nodata_scl) ! 0 ! 0 = NaN \<and>
      st_cover_notveg (scl_statistics nodata_scl) ! 0 ! 0 = NaN"
    by blast
  from B have "\<forall>L. preprocess_scl_body ndimage nodata_stack None (Some 0) (Some 0) None =
                  Inr L \<longrightarrow>
      ((\<forall>t<length (d3_values nodata_scl). d3_values nodata_scl ! t ! 0 ! 0 = 0) \<longrightarrow>
         l_invalid_after L ! 0 ! 0 = NaN)"
    by blast
  with body_nodata allz have b2: "l_invalid_after nodata_locals ! 0 ! 0 = NaN" by blast
  show ?thesis
    using wf_example_stack sel_example a1 a2 a3 body_example a4 a5
      wf_nodata_stack sel_nodata c0 c1 len b1 body_nodata b2
    by simp
qed

subsection \<open>Unobserved pixel-times\<close>

lemma footprint_disk_0: "footprint_disk 0 = [[True]]"
  by code_simp

lemma struct_offsets_single: "struct_offsets [[True]] = [(0, 0)]"
  by code_simp

lemma pixel_plane_id:
  "map (\<lambda>i. map (\<lambda>j. pixel_at p (int i) (int j)) [0..<length (p ! i)]) [0..<length p] = p"
proof (rule nth_equalityI)
  show "length (map (\<lambda>i. map (\<lambda>j. pixel_at p (int i) (int j)) [0..<length (p ! i)])
          [0..<length p]) = length p" by simp
next
  fix i assume "i < length (map (\<lambda>i. map (\<lambda>j. pixel_at p (int i) (int j)) [0..<length (p ! i)])
          [0..<length p])"
  then have i: "i < length p" by simp
  have "map (\<lambda>j. pixel_at p (int i) (int j)) [0..<length (p ! i)] = p ! i"
    using i by (intro nth_equalityI) (simp_all add: pixel_at_def)
  then show "map (\<lambda>i. map (\<lambda>j. pixel_at p (int i) (int j)) [0..<length (p ! i)])
          [0..<length p] ! i = p ! i" using i by simp
qed

lemma ndimage_radius_0:
  "binary_erosion ndimage p (disk ndimage 0) = Inr p"
  "binary_dilation ndimage p (disk ndimage 0) = Inr p"
  by (simp_all add: ndimage_def footprint_disk_0 ndi_binary_erosion_def ndi_binary_dilation_def
      struct_offsets_single pixel_plane_id)

lemma scl_morphology_identity:
  assumes idm: "\<forall>p. binary_erosion lib p (disk lib 0) = Inr p \<and>
                    binary_dilation lib p (disk lib 0) = Inr p"
    and mo: "scl_morphology lib (Some 0) (Some 0) msk = Inr out"
  shows "out = msk"
proof -
  from mo obtain es where er: "erode_stage lib (Some 0) msk = Inr es"
    and di: "dilate_stage lib (Some 0) es = Inr out"
    by (auto simp: scl_morphology_def bindE_Inr_iff)
  note E = erode_stage_Some [OF er] and D = dilate_stage_Some [OF di]
  have "es = msk"
  proof (rule nth_equalityI)
    show "length es = length msk" using E(1) .
  next
    fix t assume "t < length es"
    then have "t < length msk" using E(1) by simp
    then have "binary_erosion lib (msk ! t) (disk lib 0) = Inr (es ! t)" using E(3) by simp
    then show "es ! t = msk ! t" using idm by simp
  qed
  moreover have "out = es"
  proof (rule nth_equalityI)
    show "length out = length es" using D(1) .
  next
    fix t assume "t < length out"
    then have "t < length es" using D(1) by simp
    then have "binary_dilation lib (es ! t) (disk lib 0) = Inr (out ! t)" using D(3) by simp
    then show "out ! t = es ! t" using idm by simp
  qed
  ultimately show ?thesis by simp
qed


text \<open>
  C10. A pixel-time whose code is 0 is not marked by the binarization of line 123. With
  morphology that is the identity at radius 0, both radii 0 and no threshold, the
  validity mask built by lines 120 to 161 is True at every such pixel-time: in the mask
  an unobserved pixel-time is shown as valid.
\<close>

theorem no_data_is_valid_in_mask:
  assumes wf: "wf_stack s"
    and idm: "\<forall>p. binary_erosion lib p (disk lib 0) = Inr p \<and>
                   binary_dilation lib p (disk lib 0) = Inr p"
    and sel: "sel_band s ''SCL'' = Inr scl"
    and out: "scl_mask_output lib s mv (Some 0) (Some 0) None = Inr m"
    and t: "t < length (da_time s)" and i: "i < length (da_y s)" and j: "j < length (da_x s)"
    and nodata: "d3_values scl ! t ! i ! j = 0"
  shows "isin (d3_values scl) SCL_MASK_VALUES ! t ! i ! j = False \<and>
         da_values m ! t ! 0 ! i ! j = True"
proof -
  from out obtain L where body: "preprocess_scl_body lib s mv (Some 0) (Some 0) None = Inr L"
    and m: "m = mask_assemble (l_scl L) (l_mask L)"
    unfolding mask_output_Inr by blast
  show ?thesis
  proof (rule body_mask [OF wf body])
    fix scl' post
    assume sel': "sel_band s ''SCL'' = Inr scl'"
      and mo: "scl_morphology lib (Some 0) (Some 0) (isin (d3_values scl') SCL_MASK_VALUES) =
                 Inr post"
      and lv: "length (d3_values scl') = length (da_time s)"
      and rv: "rect3 (length (da_y s)) (length (da_x s)) (d3_values scl')"
      and len: "length (l_mask L) = length (da_time s)"
      and cell: "\<forall>t<length (da_time s). \<forall>i<length (da_y s). \<forall>j<length (da_x s).
         l_mask L ! t ! i ! j =
           (\<not> post ! t ! i ! j \<or>
            (case None of None \<Rightarrow> False | Some v \<Rightarrow> np_gt (l_invalid_after L ! i ! j) v))"
    from sel sel' have same: "scl' = scl" by simp
    have post: "post = isin (d3_values scl) SCL_MASK_VALUES"
      using scl_morphology_identity [OF idm mo] same by simp
    have notin: "d3_values scl ! t ! i ! j \<notin> set SCL_MASK_VALUES"
      unfolding nodata by (simp add: SCL_MASK_VALUES_def)
    have "isin (d3_values scl) SCL_MASK_VALUES ! t ! i ! j =
            (d3_values scl ! t ! i ! j \<in> set SCL_MASK_VALUES)"
      unfolding isin_def using rv lv t i j unfolding same by (intro map3_nth) simp_all
    with notin have bin: "isin (d3_values scl) SCL_MASK_VALUES ! t ! i ! j = False" by simp
    from cell t i j have "l_mask L ! t ! i ! j = (\<not> post ! t ! i ! j)" by simp
    with bin post have "l_mask L ! t ! i ! j" by simp
    moreover have "da_values m ! t ! 0 = l_mask L ! t"
      using t len by (simp add: m mask_assemble_def)
    ultimately show ?thesis using bin by simp
  qed
qed

theorem no_data_is_valid_in_mask_witness:
  "wf_stack nodata_stack \<and>
   binary_erosion ndimage [[True, False]] (disk ndimage 0) = Inr [[True, False]] \<and>
   binary_dilation ndimage [[True, False]] (disk ndimage 0) = Inr [[True, False]] \<and>
   sel_band nodata_stack ''SCL'' = Inr nodata_scl \<and>
   scl_mask_output ndimage nodata_stack None (Some 0) (Some 0) None =
     Inr (mask_assemble nodata_scl (l_mask nodata_locals)) \<and>
   d3_values nodata_scl ! 1 ! 0 ! 0 = 0 \<and>
   isin (d3_values nodata_scl) SCL_MASK_VALUES ! 1 ! 0 ! 0 = False \<and>
   da_values (mask_assemble nodata_scl (l_mask nodata_locals)) ! 1 ! 0 ! 0 ! 0 = True"
proof -
  have idm: "\<forall>p. binary_erosion ndimage p (disk ndimage 0) = Inr p \<and>
                  binary_dilation ndimage p (disk ndimage 0) = Inr p"
    by (simp add: ndimage_radius_0)
  have out: "scl_mask_output ndimage nodata_stack None (Some 0) (Some 0) None =
      Inr (mask_assemble nodata_scl (l_mask nodata_locals))"
    by (simp add: scl_mask_output_def bindE_def body_nodata) (simp add: nodata_locals_def)
  have t: "1 < length (da_time nodata_stack)" and i: "0 < length (da_y nodata_stack)"
    and j: "0 < length (da_x nodata_stack)"
    by (simp_all add: nodata_stack_def)
  have nodata: "d3_values nodata_scl ! 1 ! 0 ! 0 = 0" by (simp add: nodata_scl_def)
  from no_data_is_valid_in_mask [OF wf_nodata_stack idm sel_nodata out t i j nodata]
  show ?thesis using wf_nodata_stack sel_nodata out nodata by (simp add: ndimage_radius_0)
qed

subsection \<open>The mask values\<close>

lemma body_mask_values:
  "preprocess_scl_body lib s mv1 er dr thr = preprocess_scl_body lib s mv2 er dr thr"
  by (simp add: preprocess_scl_body_def)

lemma body_needs_both_radii:
  assumes "preprocess_scl_body lib s mv er dr thr = Inr L"
  shows "\<exists>r d. er = Some r \<and> dr = Some d"
proof (rule body_Inr [OF assms])
  fix scl post
  assume "scl_morphology lib er dr (isin (d3_values scl) SCL_MASK_VALUES) = Inr post"
  then show ?thesis by (rule scl_morphology_Inr_radii)
qed

text \<open>
  C3. The result of \<open>preprocess_scl\<close>, of its mask and of its local variables is the
  same for any two \<open>mask_values\<close> arguments, whether it is a value or an exception; and
  whenever the body runs through, the mask that enters morphology marks exactly the codes
  1, 3, 8, 9, 10 and 11.
\<close>

theorem mask_values_argument_ignored:
  "preprocess_scl lib s mv1 er dr thr = preprocess_scl lib s mv2 er dr thr \<and>
   scl_mask_output lib s mv1 er dr thr = scl_mask_output lib s mv2 er dr thr \<and>
   preprocess_scl_body lib s mv1 er dr thr = preprocess_scl_body lib s mv2 er dr thr \<and>
   (\<forall>L. preprocess_scl_body lib s mv1 er dr thr = Inr L \<longrightarrow>
      (\<exists>scl post.
         sel_band s ''SCL'' = Inr scl \<and>
         scl_morphology lib er dr (map3 (\<lambda>c. c \<in> {1, 3, 8, 9, 10, 11}) (d3_values scl)) =
           Inr post \<and>
         l_mask L = (case thr of None \<Rightarrow> invert3 post
                     | Some v \<Rightarrow> or_broadcast (invert3 post) (gt_scalar (l_invalid_after L) v))))"
proof (intro conjI allI impI)
  show b: "preprocess_scl_body lib s mv1 er dr thr = preprocess_scl_body lib s mv2 er dr thr"
    by (rule body_mask_values)
  show "preprocess_scl lib s mv1 er dr thr = preprocess_scl lib s mv2 er dr thr"
    unfolding preprocess_scl_def b ..
  show "scl_mask_output lib s mv1 er dr thr = scl_mask_output lib s mv2 er dr thr"
    unfolding scl_mask_output_def b ..
next
  fix L assume body: "preprocess_scl_body lib s mv1 er dr thr = Inr L"
  show "\<exists>scl post.
         sel_band s ''SCL'' = Inr scl \<and>
         scl_morphology lib er dr (map3 (\<lambda>c. c \<in> {1, 3, 8, 9, 10, 11}) (d3_values scl)) =
           Inr post \<and>
         l_mask L = (case thr of None \<Rightarrow> invert3 post
                     | Some v \<Rightarrow> or_broadcast (invert3 post) (gt_scalar (l_invalid_after L) v))"
  proof (rule body_Inr [OF body])
    fix scl post
    assume sel: "sel_band s ''SCL'' = Inr scl"
      and mo: "scl_morphology lib er dr (isin (d3_values scl) SCL_MASK_VALUES) = Inr post"
      and lm: "l_mask L = (case thr of None \<Rightarrow> invert3 post
                 | Some v \<Rightarrow> or_broadcast (invert3 post) (gt_scalar (l_invalid_after L) v))"
    have "isin (d3_values scl) SCL_MASK_VALUES =
            map3 (\<lambda>c. c \<in> {1, 3, 8, 9, 10, 11}) (d3_values scl)"
      by (simp add: isin_def set_SCL_MASK_VALUES)
    with mo have "scl_morphology lib er dr
        (map3 (\<lambda>c. c \<in> {1, 3, 8, 9, 10, 11}) (d3_values scl)) = Inr post" by simp
    with sel lm show ?thesis by blast
  qed
qed

lemma body_nodata_caller_values:
  "preprocess_scl_body ndimage nodata_stack (Some [0]) (Some 0) (Some 0) None = Inr nodata_locals"
  by code_simp

theorem mask_values_argument_ignored_witness:
  "preprocess_scl_body ndimage nodata_stack (Some [0]) (Some 0) (Some 0) None =
     Inr nodata_locals \<and>
   preprocess_scl_body ndimage nodata_stack None (Some 0) (Some 0) None = Inr nodata_locals \<and>
   scl_mask_output ndimage nodata_stack (Some [0]) (Some 0) (Some 0) None =
     scl_mask_output ndimage nodata_stack None (Some 0) (Some 0) None \<and>
   (\<exists>scl post.
      sel_band nodata_stack ''SCL'' = Inr scl \<and>
      scl_morphology ndimage (Some 0) (Some 0)
        (map3 (\<lambda>c. c \<in> {1, 3, 8, 9, 10, 11}) (d3_values scl)) = Inr post \<and>
      l_mask nodata_locals = invert3 post)"
proof -
  note r = mask_values_argument_ignored
    [of ndimage nodata_stack "Some [0]" "Some 0" "Some 0" None None]
  from r have e: "scl_mask_output ndimage nodata_stack (Some [0]) (Some 0) (Some 0) None =
     scl_mask_output ndimage nodata_stack None (Some 0) (Some 0) None"
    by (elim conjE)
  from r have "\<forall>L. preprocess_scl_body ndimage nodata_stack (Some [0]) (Some 0) (Some 0) None =
        Inr L \<longrightarrow>
      (\<exists>scl post.
         sel_band nodata_stack ''SCL'' = Inr scl \<and>
         scl_morphology ndimage (Some 0) (Some 0)
           (map3 (\<lambda>c. c \<in> {1, 3, 8, 9, 10, 11}) (d3_values scl)) = Inr post \<and>
         l_mask L = (case None of None \<Rightarrow> invert3 post
                     | Some v \<Rightarrow> or_broadcast (invert3 post) (gt_scalar (l_invalid_after L) v)))"
    by (elim conjE)
  with body_nodata_caller_values have "\<exists>scl post.
      sel_band nodata_stack ''SCL'' = Inr scl \<and>
      scl_morphology ndimage (Some 0) (Some 0)
        (map3 (\<lambda>c. c \<in> {1, 3, 8, 9, 10, 11}) (d3_values scl)) = Inr post \<and>
      l_mask nodata_locals = invert3 post"
    by simp
  then show ?thesis using body_nodata_caller_values body_nodata e by simp
qed

subsection \<open>Radii that are None\<close>

text \<open>
  C2. The code does not skip a stage whose radius is None: with \<open>erode_r = None\<close> the
  comparison \<open>erode_r > 0\<close> of line 140 raises TypeError, and with an erosion radius
  and \<open>dilate_r = None\<close> line 144 does. Evaluated on \<open>example_stack\<close>; lemma
  \<open>body_needs_both_radii\<close> shows for every input that lines 140 to 146 are passed
  only when both radii are integers.
\<close>

theorem none_radius_raises_type_error:
  "preprocess_scl ndimage example_stack None None (Some 1) None = Inl TypeError \<and>
   preprocess_scl ndimage example_stack None (Some 1) None None = Inl TypeError \<and>
   scl_mask_output ndimage example_stack None None (Some 1) None = Inl TypeError \<and>
   scl_mask_output ndimage example_stack None (Some 1) None None = Inl TypeError"
  by code_simp

text \<open>
  C8. With both radii None the call on \<open>example_stack\<close> raises TypeError at line 140,
  before the invalid ratio after morphology is computed: no bands are returned.
\<close>

theorem no_morphology_raises_type_error:
  "preprocess_scl ndimage example_stack None None None None = Inl TypeError \<and>
   preprocess_scl_body ndimage example_stack None None None None = Inl TypeError"
  by code_simp

subsection \<open>The auxiliary array on a concrete stack\<close>

text \<open>
  C4. On \<open>example_stack\<close> with both radii 0 the mask is built, the concatenation of the
  seven two-by-two planes along axis 0 has shape (14, 2), and labelling it with four
  dimensions raises ValueError: no auxiliary array of shape (1, 7, y, x) is returned.
  Lemma \<open>preprocess_scl_never_returns\<close> shows the same for every input.
\<close>

theorem aux_assembly_raises_value_error:
  "scl_mask_output ndimage example_stack None (Some 0) (Some 0) None =
     Inr (mask example_container) \<and>
   map_sum id nd_shape
     (da_concatenate0 (map (asarray2 2 2)
        [l_obs example_locals, l_invalid_before example_locals, l_invalid_after example_locals,
         l_cover_snow example_locals, l_cover_water example_locals, l_cover_veg example_locals,
         l_cover_notveg example_locals])) = Inr [14, 2] \<and>
   preprocess_scl ndimage example_stack None (Some 0) (Some 0) None = Inl ValueError"
  by code_simp

subsection \<open>Clipping a container\<close>

lemma clip_never_returns: "clip c bounds = Inl TypeError"
  by (cases bounds) (simp add: clip_def rio_clip_def bindE_def)

text \<open>
  C9. \<open>clip\<close> does not crop: called with a bounding rectangle it raises TypeError, for
  the coregistered \<open>example_container\<close> as for every container (lemma
  \<open>clip_never_returns\<close>), because line 56 hands the four numbers to the geometry clip.
  The crop to the same rectangle that the spec describes would return
  \<open>clipped_container\<close>, whose mask and aux have the same y and x coordinates.
\<close>

theorem clip_raises_type_error:
  "clip example_container (0, 1 / 2, 1 / 2, 3 / 2) = Inl TypeError \<and>
   rio_clip_box (0, 1 / 2, 1 / 2, 3 / 2) (mask example_container) =
     Inr (mask clipped_container) \<and>
   rio_clip_box (0, 1 / 2, 1 / 2, 3 / 2) (aux example_container) =
     Inr (aux clipped_container) \<and>
   da_y (mask clipped_container) = da_y (aux clipped_container) \<and>
   da_x (mask clipped_container) = da_x (aux clipped_container)"
  by code_simp

end
